theory Spec2Isabelle
  imports Main "HOL-Library.Word" "HOL-Library.Sublist"
begin

unbundle bit_operations_syntax

section \<open>Data model\<close>

text \<open>
  A \<open>std::vector<unsigned char>\<close> is a list of bytes; \<open>char\<close> is the 8-bit character of
  HOL, so \<open>stringFromVch\<close>, \<open>vchFromString\<close> and \<open>vchFromValue\<close> (byte-wise copies) are
  the identity and are left out.
\<close>

type_synonym vch = string
type_synonym uint256 = "256 word"

text \<open>
  The fields of \<open>CAsset\<close> that the asset source reads and writes. \<open>nHeight\<close> is an unsigned
  64-bit integer (the source casts it to \<open>int\<close> for display).
\<close>

record CAsset =
  vchAsset :: vch
  vchAlias :: vch
  vchName :: vch
  vchPubData :: vch
  sCategory :: vch
  vchLinkAlias :: vch
  nHeight :: "64 word"
  txHash :: uint256

text \<open>
  Modelled from the spec: \<open>CAsset::SetNull\<close> is declared in asset.h, which is not among the
  sources. The nulled record ("the out-record nulled") has every byte string empty and
  every number zero; a default-constructed \<open>CAsset\<close> is the same record.
\<close>

definition CAsset_SetNull :: CAsset where
  "CAsset_SetNull =
     \<lparr>vchAsset = [], vchAlias = [], vchName = [], vchPubData = [], sCategory = [],
      vchLinkAlias = [], nHeight = 0, txHash = 0\<rparr>"

text \<open>
  Modelled from the spec: \<open>CAsset::IsNull\<close> is declared in asset.h, which is not among the
  sources. A record is null when it carries no asset id (the "previous_opt" of \<open>put\<close>).
\<close>

definition CAsset_IsNull :: "CAsset \<Rightarrow> bool" where
  "CAsset_IsNull a = (vchAsset a = [])"

text \<open>The two identity records the asset code reads (alias.h is not among the sources).\<close>

record CAliasIndex =
  alias_vchAlias :: vch
  nAcceptTransferFlags :: int

record CAliasUnprunable =
  vchGUID :: vch
  nExpireTime :: "64 word"

text \<open>
  The transaction, as far as the asset code looks at it. \<open>GetSyscoinData\<close> is the external
  payload accessor: \<open>None\<close> when it returns false, otherwise the auxiliary payload
  \<open>vchData\<close> and the hash \<open>vchHash\<close> it reports for it.
\<close>

record CTransaction =
  nVersion :: int
  IsCoinBase :: bool
  GetHash :: uint256
  GetSyscoinData :: "(vch \<times> vch) option"

subsection \<open>Parameters declared outside the sources\<close>

text \<open>
  Constants, macros and library functions that the asset source uses and that are declared
  in headers which are not among the sources. They are parameters of the model:
  \<^item> \<open>Hash\<close>, \<open>GetHex\<close>: the double SHA-256 and \<open>uint256::GetHex\<close>;
  \<^item> \<open>stream_out\<close>, \<open>stream_in\<close>: the \<open>CDataStream\<close> operators \<open><<\<close> and \<open>>>\<close> of
    \<open>CAsset\<close>; \<open>stream_in\<close> is \<open>None\<close> when \<open>>>\<close> throws;
  \<^item> \<open>GetSyscoinTransactionDescription\<close>: the pair (\<open>strResponse\<close>, \<open>strResponseEnglish\<close>);
  \<^item> \<open>AliasUnprunable_IsNull\<close>: \<open>CAliasUnprunable::IsNull\<close>;
  \<^item> \<open>DecodeOP_N\<close> and the opcodes of the script interpreter;
  \<^item> the length bounds, the transaction version, the operation codes and the transfer flag.
\<close>

record ext =
  Hash :: "vch \<Rightarrow> uint256"
  GetHex :: "uint256 \<Rightarrow> string"
  stream_out :: "CAsset \<Rightarrow> vch"
  stream_in :: "vch \<Rightarrow> CAsset option"
  GetSyscoinTransactionDescription :: "int \<Rightarrow> string \<times> string"
  AliasUnprunable_IsNull :: "CAliasUnprunable \<Rightarrow> bool"
  DecodeOP_N :: "int \<Rightarrow> int"
  OP_1 :: int
  OP_16 :: int
  OP_DROP :: int
  OP_2DROP :: int
  OP_PUSHDATA4 :: int
  OP_SYSCOIN_ASSET :: int
  OP_ASSET_ACTIVATE :: int
  OP_ASSET_UPDATE :: int
  OP_ASSET_TRANSFER :: int
  OP_ASSET_MINT :: int
  SYSCOIN_TX_VERSION :: int
  MAX_NAME_LENGTH :: nat
  MAX_VALUE_LENGTH :: nat
  MAX_ID_LENGTH :: nat
  ACCEPT_TRANSFER_ASSETS :: int

text \<open>
  The case labels of a C++ \<open>switch\<close> are pairwise different constants; the \<open>switch\<close> on
  \<open>op\<close> is modelled as a chain of tests, which is the same under this condition.
\<close>

definition distinct_ops :: "ext \<Rightarrow> bool" where
  "distinct_ops X =
     distinct [OP_ASSET_ACTIVATE X, OP_ASSET_UPDATE X, OP_ASSET_TRANSFER X, OP_ASSET_MINT X]"

section \<open>Script codec\<close>

definition IsAssetOp :: "ext \<Rightarrow> int \<Rightarrow> bool" where
  "IsAssetOp X op =
     (op = OP_ASSET_ACTIVATE X \<or> op = OP_ASSET_MINT X
      \<or> op = OP_ASSET_UPDATE X \<or> op = OP_ASSET_TRANSFER X)"

definition assetFromOp :: "ext \<Rightarrow> int \<Rightarrow> string" where
  "assetFromOp X op =
     (if op = OP_ASSET_ACTIVATE X then ''assetactivate''
      else if op = OP_ASSET_UPDATE X then ''assetupdate''
      else if op = OP_ASSET_MINT X then ''assetmint''
      else if op = OP_ASSET_TRANSFER X then ''assettransfer''
      else ''<unknown asset op>'')"

text \<open>
  \<open>CScript::GetOp\<close> is declared in script.h, which is not among the sources. A script is
  modelled as the sequence of tokens (opcode, pushed bytes) that successive calls of
  \<open>GetOp\<close> yield; \<open>GetOp\<close> returning false (end of script, or a truncated push) is the end
  of the list. The cursor \<open>pc\<close> of the source is a position in the bytes of the script,
  which a sequence of tokens does not have: the outputs modelled are the boolean, \<open>op\<close>
  and \<open>vvch\<close>, those of the overload without a cursor (lines 317 to 321). The \<open>while\<close>
  loop of lines 309 to 312 and the \<open>pc--\<close> after it only move the cursor.
\<close>

type_synonym token = "int \<times> vch"
type_synonym CScript = "token list"

text \<open>
  The \<open>for (;;)\<close> loop of \<open>DecodeAssetScript\<close>: the result is \<open>found\<close> and the arguments
  read so far.
\<close>

fun DecodeAssetScript_args :: "ext \<Rightarrow> CScript \<Rightarrow> vch list \<Rightarrow> bool \<times> vch list" where
  "DecodeAssetScript_args X [] vvch = (False, vvch)"
| "DecodeAssetScript_args X ((opcode, v) # pc) vvch =
     (if opcode = OP_DROP X \<or> opcode = OP_2DROP X then (True, vvch)
      else if \<not> (opcode \<ge> 0 \<and> opcode \<le> OP_PUSHDATA4 X) then (False, vvch)
      else DecodeAssetScript_args X pc (vvch @ [v]))"

text \<open>
  \<open>DecodeAssetScript\<close> returns the boolean, the value left in \<open>op\<close> (the caller's value
  \<open>op0\<close> when it is not assigned) and \<open>vvch\<close>.
\<close>

definition DecodeAssetScript :: "ext \<Rightarrow> CScript \<Rightarrow> int \<Rightarrow> bool \<times> int \<times> vch list" where
  "DecodeAssetScript X script op0 =
     (case script of
        [] \<Rightarrow> (False, op0, [])
      | (opcode, _) # pc1 \<Rightarrow>
          if opcode < OP_1 X \<or> opcode > OP_16 X then (False, op0, [])
          else let op1 = DecodeOP_N X opcode in
            if op1 \<noteq> OP_SYSCOIN_ASSET X then (False, op1, [])
            else (case pc1 of
                [] \<Rightarrow> (False, op1, [])
              | (opcode2, _) # pc2 \<Rightarrow>
                  if opcode2 < OP_1 X \<or> opcode2 > OP_16 X then (False, op1, [])
                  else let op2 = DecodeOP_N X opcode2 in
                    if \<not> IsAssetOp X op2 then (False, op2, [])
                    else (case DecodeAssetScript_args X pc2 [] of
                        (found, vvch) \<Rightarrow> (found, op2, vvch))))"

section \<open>Record codec\<close>

definition Serialize :: "ext \<Rightarrow> CAsset \<Rightarrow> vch" where
  "Serialize X a = stream_out X a"

text \<open>
  \<open>CAsset::UnserializeFromData\<close> returns the boolean and the value left in \<open>*this\<close>.
\<close>

definition UnserializeFromData :: "ext \<Rightarrow> vch \<Rightarrow> vch \<Rightarrow> bool \<times> CAsset" where
  "UnserializeFromData X vchData vchHash =
     (case stream_in X vchData of
        None \<Rightarrow> (False, CAsset_SetNull)
      | Some a \<Rightarrow>
          let vchAssetData = Serialize X a;
              calculatedHash = Hash X vchAssetData;
              vchRandAsset = GetHex X calculatedHash
          in if vchRandAsset \<noteq> vchHash then (False, CAsset_SetNull) else (True, a))"

definition UnserializeFromTx :: "ext \<Rightarrow> CTransaction \<Rightarrow> bool \<times> CAsset" where
  "UnserializeFromTx X tx =
     (case GetSyscoinData tx of
        None \<Rightarrow> (False, CAsset_SetNull)
      | Some (vchData, vchHash) \<Rightarrow> UnserializeFromData X vchData vchHash)"

section \<open>Persistent store, identity registry and read-model mirror\<close>

text \<open>
  Modelled from the spec: the class \<open>CAssetDB\<close> (asset.h) is not among the sources. The
  store holds \<open>current(id)\<close> (key "asseti"), \<open>previous(id)\<close> (key "assetp") and the
  settlement-lock marker per id (key "assetl"). \<open>io_ok\<close> says whether the writes and
  erasures of the underlying key-value store succeed ("store I/O failure while writing").
\<close>

record CAssetDB =
  asseti :: "vch \<rightharpoonup> CAsset"
  assetp :: "vch \<rightharpoonup> CAsset"
  assetl :: "vch \<rightharpoonup> bool"
  io_ok :: bool

text \<open>
  Modelled from the spec: the class \<open>CAliasDB\<close> (alias.h) is not among the sources.
  \<open>aliases\<close> is what \<open>GetAlias\<close> resolves, \<open>unprunable\<close> what \<open>ReadAliasUnprunable\<close>
  reads, and \<open>aliastxhistory\<close> the activity history of the identities, keyed by the hex
  form of the transaction hash.
\<close>

record alias_tx =
  user1 :: string
  user2 :: string
  user3 :: string
  tx_height :: int
  tx_type :: string
  tx_guid :: string

record CAliasDB =
  aliases :: "vch \<rightharpoonup> CAliasIndex"
  unprunable :: "vch \<rightharpoonup> CAliasUnprunable"
  aliastxhistory :: "(string \<times> alias_tx) list"

text \<open>
  The global state the asset code reads and writes: the two database pointers (\<open>None\<close> is
  the null pointer), the two collections of the document mirror (\<open>None\<close> when indexing
  is not configured; a document is kept as the record it is a projection of, the history
  document with its \<open>_id\<close> and the operation name), and the median time past of the chain tip, a signed 64-bit integer
  that the source compares with and converts to unsigned 64-bit values: it is kept as its
  64-bit pattern.
\<close>

record world =
  paliasdb :: "CAliasDB option"
  passetdb :: "CAssetDB option"
  asset_collection :: "(string \<rightharpoonup> CAsset) option"
  assethistory_collection :: "(string \<times> CAsset \<times> string) list option"
  GetMedianTimePast :: "64 word"

section \<open>Expiration policy and lazy-expiry read\<close>

definition GetAssetExpiration :: "ext \<Rightarrow> world \<Rightarrow> CAsset \<Rightarrow> 64 word" where
  "GetAssetExpiration X w asset =
     (let nTime = GetMedianTimePast w + 1 in
      case paliasdb w of
        None \<Rightarrow> nTime
      | Some adb \<Rightarrow>
          (case unprunable adb (vchAlias asset) of
             None \<Rightarrow> nTime
           | Some aliasUnprunable \<Rightarrow>
               if \<not> AliasUnprunable_IsNull X aliasUnprunable
               then nExpireTime aliasUnprunable else nTime))"

text \<open>
  \<open>GetAsset\<close> returns the boolean and the value left in the out-parameter \<open>txPos\<close>, whose
  value before the call is the last argument: a failed \<open>ReadAsset\<close> leaves it as it was.
\<close>

definition GetAsset :: "ext \<Rightarrow> world \<Rightarrow> vch \<Rightarrow> CAsset \<Rightarrow> bool \<times> CAsset" where
  "GetAsset X w vchAsset_arg txPos =
     (case passetdb w of
        None \<Rightarrow> (False, txPos)
      | Some db \<Rightarrow>
          (case asseti db vchAsset_arg of
             None \<Rightarrow> (False, txPos)
           | Some stored \<Rightarrow>
               if GetMedianTimePast w \<ge> GetAssetExpiration X w stored
               then (False, CAsset_SetNull) else (True, stored)))"

section \<open>Store and mirror operations\<close>

text \<open>
  Modelled from the spec: the methods of \<open>CAssetDB\<close> declared in asset.h, which is not
  among the sources. \<open>ReadAsset\<close> reads \<open>current(id)\<close>, \<open>ReadLastAsset\<close> reads
  \<open>previous(id)\<close>, \<open>ReadISLock\<close> reads the settlement-lock marker (\<open>None\<close> when the
  read returns false), \<open>EraseISLock\<close> clears it, and \<open>Write_assetp\<close> is the call
  \<open>Write(make_pair("assetp", id), record)\<close>. Writes and erasures fail, and change
  nothing, when the store's I/O fails.
\<close>

definition ReadAsset :: "CAssetDB \<Rightarrow> vch \<Rightarrow> CAsset option" where
  "ReadAsset db k = asseti db k"

definition ReadLastAsset :: "CAssetDB \<Rightarrow> vch \<Rightarrow> CAsset option" where
  "ReadLastAsset db k = assetp db k"

definition ReadISLock :: "CAssetDB \<Rightarrow> vch \<Rightarrow> bool option" where
  "ReadISLock db k = assetl db k"

definition EraseISLock :: "CAssetDB \<Rightarrow> vch \<Rightarrow> bool \<times> CAssetDB" where
  "EraseISLock db k =
     (if io_ok db then (True, db\<lparr>assetl := (assetl db)(k := None)\<rparr>) else (False, db))"

definition Write_assetp :: "CAssetDB \<Rightarrow> vch \<Rightarrow> CAsset \<Rightarrow> bool \<times> CAssetDB" where
  "Write_assetp db k a =
     (if io_ok db then (True, db\<lparr>assetp := (assetp db)(k \<mapsto> a)\<rparr>) else (False, db))"

text \<open>
  \<open>CAssetDB::WriteAssetIndexHistory\<close> and \<open>CAssetDB::WriteAssetIndex\<close>: nothing happens
  when the collection is not configured; note that \<open>WriteAssetIndex\<close> returns before the
  history is written when \<open>asset_collection\<close> is null. The history document has the hex
  form of the record's transaction hash as its \<open>_id\<close>.
\<close>

definition WriteAssetIndexHistory :: "ext \<Rightarrow> world \<Rightarrow> CAsset \<Rightarrow> int \<Rightarrow> world" where
  "WriteAssetIndexHistory X w asset op =
     (case assethistory_collection w of
        None \<Rightarrow> w
      | Some docs \<Rightarrow>
          w\<lparr>assethistory_collection :=
               Some (docs @ [(GetHex X (txHash asset), asset, assetFromOp X op)])\<rparr>)"

definition WriteAssetIndex :: "ext \<Rightarrow> world \<Rightarrow> CAsset \<Rightarrow> int \<Rightarrow> world" where
  "WriteAssetIndex X w asset op =
     (case asset_collection w of
        None \<Rightarrow> w
      | Some docs \<Rightarrow>
          WriteAssetIndexHistory X
            (w\<lparr>asset_collection := Some (docs(vchAsset asset \<mapsto> asset))\<rparr>) asset op)"

text \<open>\<open>CAssetDB::EraseAssetIndexHistory(const std::string& id)\<close>: removal by \<open>_id\<close>.\<close>

definition EraseAssetIndexHistory :: "world \<Rightarrow> string \<Rightarrow> world" where
  "EraseAssetIndexHistory w ident =
     (case assethistory_collection w of
        None \<Rightarrow> w
      | Some docs \<Rightarrow>
          w\<lparr>assethistory_collection := Some (filter (\<lambda>d. fst d \<noteq> ident) docs)\<rparr>)"

text \<open>
  Modelled from the spec: \<open>CAliasDB::WriteAliasIndexTxHistory\<close>,
  \<open>CAliasDB::EraseAliasIndexTxHistory\<close> and \<open>GetAlias\<close> are defined in alias.cpp, which is
  not among the sources. The history is "append-only keyed by transaction hash", its
  erasure is "tied to a specific transaction hash", and \<open>GetAlias\<close> is \<open>resolve(alias_id)\<close>
  of the identity registry.
\<close>

definition WriteAliasIndexTxHistory ::
  "ext \<Rightarrow> world \<Rightarrow> string \<Rightarrow> string \<Rightarrow> string \<Rightarrow> uint256 \<Rightarrow> int \<Rightarrow> string \<Rightarrow> string \<Rightarrow> world" where
  "WriteAliasIndexTxHistory X w u1 u2 u3 h nHeight_arg strType guid =
     (case paliasdb w of
        None \<Rightarrow> w
      | Some adb \<Rightarrow>
          w\<lparr>paliasdb := Some (adb\<lparr>aliastxhistory := aliastxhistory adb @
               [(GetHex X h, \<lparr>user1 = u1, user2 = u2, user3 = u3, tx_height = nHeight_arg,
                              tx_type = strType, tx_guid = guid\<rparr>)]\<rparr>)\<rparr>)"

definition EraseAliasIndexTxHistory :: "world \<Rightarrow> string \<Rightarrow> world" where
  "EraseAliasIndexTxHistory w ident =
     (case paliasdb w of
        None \<Rightarrow> w
      | Some adb \<Rightarrow>
          w\<lparr>paliasdb := Some (adb\<lparr>aliastxhistory :=
               filter (\<lambda>d. fst d \<noteq> ident) (aliastxhistory adb)\<rparr>)\<rparr>)"

definition GetAlias :: "world \<Rightarrow> vch \<Rightarrow> CAliasIndex option" where
  "GetAlias w v = (case paliasdb w of None \<Rightarrow> None | Some adb \<Rightarrow> aliases adb v)"

text \<open>
  Modelled from the spec: \<open>CAssetDB::WriteAsset\<close> is declared in asset.h, which is not
  among the sources. It is \<open>put(current, previous_opt, operation, strict_mode)\<close>: "the
  current record is written as the new current version, the previous version is
  retained", and the read-model mirror is notified with \<open>WriteAssetIndex\<close>. The spec does
  not say what the strict-mode flag changes; the model does not use it.
\<close>

definition WriteAsset :: "ext \<Rightarrow> world \<Rightarrow> CAsset \<Rightarrow> CAsset \<Rightarrow> int \<Rightarrow> bool \<Rightarrow> bool \<times> world" where
  "WriteAsset X w asset prevAsset op fJustCheck =
     (case passetdb w of
        None \<Rightarrow> (False, w)
      | Some db \<Rightarrow>
          if \<not> io_ok db then (False, w)
          else
            let db1 = db\<lparr>asseti := (asseti db)(vchAsset asset \<mapsto> asset)\<rparr>;
                db2 = (if CAsset_IsNull prevAsset then db1
                       else db1\<lparr>assetp := (assetp db1)(vchAsset asset \<mapsto> prevAsset)\<rparr>)
            in (True, WriteAssetIndex X (w\<lparr>passetdb := Some db2\<rparr>) asset op))"

section \<open>Life-cycle validator\<close>

text \<open>
  The messages assigned to \<open>errorMessage\<close>, one constructor for each assignment in
  \<open>CheckAssetInputs\<close> (the two erasures of the lock share one message). \<open>errorText\<close>
  gives the text of the source, with the translation function \<open>_\<close> as the identity.
\<close>

datatype asset_error =
    E2000 | E2001 | E2002 | E2003 | E4003 | E2005 | E2007 | E2010 | E2012 | E2013
  | E2015 | E2017 | E2021 | E2022 | E2026_locked | E1096_erase | E1096_write
  | E2026_height | E2024 | E2025 | E2026_owner | E2027 | E2028

fun errorText :: "asset_error \<Rightarrow> string" where
  "errorText E2000 = ''SYSCOIN_ASSET_CONSENSUS_ERROR: ERRCODE: 2000 - Non-Syscoin transaction found''"
| "errorText E2001 = ''SYSCOIN_ASSET_CONSENSUS_ERROR ERRCODE: 2001 - Cannot unserialize data inside of this transaction relating to a asset''"
| "errorText E2002 = ''SYSCOIN_ASSET_CONSENSUS_ERROR: ERRCODE: 2002 - Asset arguments incorrect size''"
| "errorText E2003 = ''SYSCOIN_ASSET_CONSENSUS_ERROR: ERRCODE: 2003 - Hash provided doesn't match the calculated hash of the data''"
| "errorText E4003 = ''SYSCOIN_ASSET_CONSENSUS_ERROR: ERRCODE: 4003 - Alias input mismatch''"
| "errorText E2005 = ''SYSCOIN_ASSET_CONSENSUS_ERROR: ERRCODE: 2005 - Asset category too big''"
| "errorText E2007 = ''SYSCOIN_ASSET_CONSENSUS_ERROR: ERRCODE: 2007 - Asset public data too big''"
| "errorText E2010 = ''SYSCOIN_ASSET_CONSENSUS_ERROR: ERRCODE: 2010 - Asset linked alias not allowed in activate''"
| "errorText E2012 = ''SYSCOIN_ASSET_CONSENSUS_ERROR: ERRCODE: 2012 - Asset title too big or is empty''"
| "errorText E2013 = ''SYSCOIN_ASSET_CONSENSUS_ERROR: ERRCODE: 2013 - Must use a asset category''"
| "errorText E2015 = ''SYSCOIN_ASSET_CONSENSUS_ERROR: ERRCODE: 2015 - Asset name cannot be changed''"
| "errorText E2017 = ''SYSCOIN_ASSET_CONSENSUS_ERROR: ERRCODE: 2017 - Must use a asset category''"
| "errorText E2021 = ''SYSCOIN_ASSET_CONSENSUS_ERROR: ERRCODE: 2021 - Asset transaction has unknown op''"
| "errorText E2022 = ''SYSCOIN_ASSET_CONSENSUS_ERROR: ERRCODE: 2022 - Failed to read from asset DB''"
| "errorText E2026_locked = ''SYSCOIN_ASSET_CONSENSUS_ERROR: ERRCODE: 2026 - Block height of service request must be less than or equal to the stored service block height.''"
| "errorText E1096_erase = ''SYSCOIN_ASSET_CONSENSUS_ERROR: ERRCODE: 1096 - Failed to erase Instant Send lock from asset DB''"
| "errorText E1096_write = ''SYSCOIN_ASSET_CONSENSUS_ERROR: ERRCODE: 1096 - Failed to write previous asset to asset DB''"
| "errorText E2026_height = ''SYSCOIN_ASSET_CONSENSUS_ERROR: ERRCODE: 2026 - Block height of service request cannot be lower than stored service block height.''"
| "errorText E2024 = ''SYSCOIN_ASSET_CONSENSUS_ERROR: ERRCODE: 2024 - Cannot find alias you are transferring to.''"
| "errorText E2025 = ''SYSCOIN_ASSET_CONSENSUS_ERROR: ERRCODE: 2025 - The alias you are transferring to does not accept assets''"
| "errorText E2026_owner = ''SYSCOIN_ASSET_CONSENSUS_ERROR: ERRCODE: 2026 - Cannot edit this asset. Asset owner must sign off on this change.''"
| "errorText E2027 = ''SYSCOIN_ASSET_CONSENSUS_ERROR: ERRCODE: 2027 - Asset already exists''"
| "errorText E2028 = ''SYSCOIN_ASSET_CONSENSUS_ERROR: ERRCODE: 2028 - Failed to write to assetifcate DB''"

text \<open>
  What a call of \<open>CheckAssetInputs\<close> leaves behind: the boolean it returns (\<open>return
  error(...)\<close> logs and returns false), the message assigned to \<open>errorMessage\<close> (\<open>None\<close>
  when the caller's string is not touched) and the global state.
\<close>

datatype result = Result (ret: bool) (errorMessage: "asset_error option") (after: world)

text \<open>
  \<open>boost::algorithm::starts_with\<close> and its case-insensitive variant \<open>istarts_with\<close>, which
  compares the characters after \<open>std::tolower\<close> (ASCII letters in the C locale).
\<close>

definition to_lower :: "char \<Rightarrow> char" where
  "to_lower c =
     (let n = (of_char c :: nat) in if 65 \<le> n \<and> n \<le> 90 then char_of (n + 32) else c)"

definition starts_with :: "string \<Rightarrow> string \<Rightarrow> bool" where
  "starts_with input test = prefix test input"

definition istarts_with :: "string \<Rightarrow> string \<Rightarrow> bool" where
  "istarts_with input test = prefix (map to_lower test) (map to_lower input)"

text \<open>
  \<open>CheckAssetInputs\<close> is cut into the consecutive parts of its body. A part either
  returns from the function (\<open>Inl\<close>) or hands on to the next part (\<open>Inr\<close>). The result
  \<open>None\<close> is the undefined behaviour of reading \<open>vvchAliasArgs[0]\<close> from an empty
  vector. Logging (\<open>LogPrintf\<close>, \<open>fDebug\<close>) is left out, and so is the parameter
  \<open>nOut\<close>, which the body never reads.

  The height \<open>nHeight\<close> is an \<open>int\<close>; the comparisons with the unsigned 64-bit field of
  the stored record and the assignment to it convert it to 64 bits (\<open>word_of_int\<close>).
\<close>

text \<open>Lines 379 to 385: the owning-alias argument.\<close>

definition CheckAssetInputs_alias ::
  "world \<Rightarrow> vch list \<Rightarrow> bool \<Rightarrow> CAsset \<Rightarrow> result option + CAsset" where
  "CheckAssetInputs_alias w vvchAliasArgs fJustCheck theAsset =
     (case vvchAliasArgs of
        [] \<Rightarrow> Inl None
      | a0 # _ \<Rightarrow>
          if vchAlias theAsset \<noteq> a0
          then (if fJustCheck then Inl (Some (Result False (Some E4003) w))
                else Inl (Some (Result True (Some E4003) w)))
          else Inr theAsset)"

text \<open>Lines 335 to 385: the checks on the transaction, its payload and its arguments.\<close>

definition CheckAssetInputs_pre ::
  "ext \<Rightarrow> world \<Rightarrow> CTransaction \<Rightarrow> vch list \<Rightarrow> vch list \<Rightarrow> bool \<Rightarrow> bool
     \<Rightarrow> result option + CAsset" where
  "CheckAssetInputs_pre X w tx vvchArgs vvchAliasArgs fJustCheck dontaddtodb =
     (if paliasdb w = None \<or> passetdb w = None then Inl (Some (Result False None w))
      else if IsCoinBase tx \<and> \<not> fJustCheck \<and> \<not> dontaddtodb
        then Inl (Some (Result True None w))
      else if nVersion tx \<noteq> SYSCOIN_TX_VERSION X
        then Inl (Some (Result True (Some E2000) w))
      else
        (case GetSyscoinData tx of
           None \<Rightarrow> Inl (Some (Result True (Some E2001) w))
         | Some (vchData, vchHash) \<Rightarrow>
             (case UnserializeFromData X vchData vchHash of
                (False, _) \<Rightarrow> Inl (Some (Result True (Some E2001) w))
              | (True, theAsset) \<Rightarrow>
                  if fJustCheck then
                    (case vvchArgs of
                       [arg0] \<Rightarrow>
                         if vchHash \<noteq> arg0 then Inl (Some (Result True (Some E2003) w))
                         else CheckAssetInputs_alias w vvchAliasArgs fJustCheck theAsset
                     | _ \<Rightarrow> Inl (Some (Result False (Some E2002) w)))
                  else CheckAssetInputs_alias w vvchAliasArgs fJustCheck theAsset)))"

text \<open>
  Lines 389 to 440: the checks made only under \<open>fJustCheck\<close>; the result is the early
  return (its boolean and message), if any.
\<close>

definition CheckAssetInputs_strict :: "ext \<Rightarrow> int \<Rightarrow> CAsset \<Rightarrow> (bool \<times> asset_error) option" where
  "CheckAssetInputs_strict X op theAsset =
     (if length (sCategory theAsset) > MAX_NAME_LENGTH X then Some (False, E2005)
      else if length (vchPubData theAsset) > MAX_VALUE_LENGTH X then Some (False, E2007)
      else if op = OP_ASSET_ACTIVATE X then
        (if vchLinkAlias theAsset \<noteq> [] then Some (False, E2010)
         else if length (vchName theAsset) > MAX_ID_LENGTH X \<or> vchName theAsset = []
           then Some (False, E2012)
         else if \<not> starts_with (sCategory theAsset) ''assets'' then Some (True, E2013)
         else None)
      else if op = OP_ASSET_UPDATE X then
        (if vchName theAsset \<noteq> [] then Some (False, E2015)
         else if length (sCategory theAsset) > 0
                 \<and> \<not> istarts_with (sCategory theAsset) ''assets''
           then Some (True, E2017)
         else None)
      else if op = OP_ASSET_TRANSFER X then None
      else Some (False, E2021))"

text \<open>
  Lines 448 to 513: the read of the stored record, the height rule and the reconciliation
  under a settlement lock. The part hands on the record held in \<open>dbAsset\<close> and the state.
  The pointer \<open>passetdb\<close> is not null here (line 335).
\<close>

definition CheckAssetInputs_load ::
  "ext \<Rightarrow> world \<Rightarrow> CTransaction \<Rightarrow> int \<Rightarrow> CAsset \<Rightarrow> bool \<Rightarrow> int \<Rightarrow> bool
     \<Rightarrow> result option + (CAsset \<times> world)" where
  "CheckAssetInputs_load X w tx op theAsset fJustCheck nHeight_arg dontaddtodb =
     (case passetdb w of
        None \<Rightarrow> Inl (Some (Result False None w))
      | Some db \<Rightarrow>
       (case GetAsset X w (vchAsset theAsset) CAsset_SetNull of
        (False, dbAsset) \<Rightarrow>
          if op \<noteq> OP_ASSET_ACTIVATE X then Inl (Some (Result True (Some E2022) w))
          else Inr (dbAsset, w)
      | (True, dbAsset) \<Rightarrow>
          if \<not> fJustCheck \<and> ReadISLock db (vchAsset theAsset) = Some True then
            (if nHeight dbAsset \<ge> word_of_int nHeight_arg
               then Inl (Some (Result True (Some E2026_locked) w))
             else if txHash dbAsset \<noteq> GetHash tx then
               (let txHashHex = GetHex X (txHash dbAsset);
                    dbAsset1 =
                      (if op \<noteq> OP_ASSET_ACTIVATE X then
                         (case ReadLastAsset db (vchAsset theAsset) of
                            None \<Rightarrow> CAsset_SetNull
                          | Some lastAsset \<Rightarrow> lastAsset)
                       else dbAsset)
                in if \<not> dontaddtodb then
                     (case EraseISLock db (vchAsset theAsset) of
                        (False, _) \<Rightarrow> Inl (Some (Result False (Some E1096_erase) w))
                      | (True, db1) \<Rightarrow>
                          Inr (dbAsset1,
                               EraseAssetIndexHistory
                                 (EraseAliasIndexTxHistory (w\<lparr>passetdb := Some db1\<rparr>) txHashHex)
                                 txHashHex))
                   else Inr (dbAsset1, w))
             else
               (if \<not> dontaddtodb then
                  (case Write_assetp db (vchAsset theAsset) dbAsset of
                     (False, _) \<Rightarrow> Inl (Some (Result False (Some E1096_write) w))
                   | (True, db1) \<Rightarrow>
                       (case EraseISLock db1 (vchAsset theAsset) of
                          (False, _) \<Rightarrow>
                            Inl (Some (Result False (Some E1096_erase) (w\<lparr>passetdb := Some db1\<rparr>)))
                        | (True, db2) \<Rightarrow>
                            Inl (Some (Result True None (w\<lparr>passetdb := Some db2\<rparr>)))))
                else Inl (Some (Result True None w))))
          else if nHeight dbAsset > word_of_int nHeight_arg
            then Inl (Some (Result True (Some E2026_height) w))
          else Inr (dbAsset, w)))"

text \<open>
  Lines 556 to 584: the activity entry of the owning identity, the stamping of the record
  and the write. \<open>u1\<close> and \<open>u2\<close> are the local strings \<open>user1\<close> and \<open>user2\<close>.
\<close>

definition CheckAssetInputs_write ::
  "ext \<Rightarrow> world \<Rightarrow> CTransaction \<Rightarrow> int \<Rightarrow> CAsset \<Rightarrow> CAsset \<Rightarrow> bool \<Rightarrow> int \<Rightarrow> bool
     \<Rightarrow> string \<Rightarrow> string \<Rightarrow> result option" where
  "CheckAssetInputs_write X w tx op theAsset dbAsset fJustCheck nHeight_arg dontaddtodb u1 u2 =
     (let w1 =
            (if \<not> dontaddtodb then
               (case GetSyscoinTransactionDescription X op of
                  (strResponse, strResponseEnglish) \<Rightarrow>
                    if strResponse \<noteq> []
                    then WriteAliasIndexTxHistory X w u1 u2 [] (GetHash tx) nHeight_arg
                           strResponseEnglish (vchAsset theAsset)
                    else w)
             else w);
          theAsset1 = theAsset\<lparr>vchLinkAlias := [], nHeight := word_of_int nHeight_arg,
                                txHash := GetHash tx\<rparr>
      in if \<not> dontaddtodb then
           (case WriteAsset X w1 theAsset1 dbAsset op fJustCheck of
              (False, w2) \<Rightarrow> Some (Result False (Some E2028) w2)
            | (True, w2) \<Rightarrow> Some (Result True None w2))
         else Some (Result True None w1))"

text \<open>
  Lines 514 to 555: what the operation does to the record. For an activation under
  \<open>fJustCheck\<close> the record \<open>theAsset\<close> is itself the out-parameter of \<open>GetAsset\<close>.
\<close>

definition CheckAssetInputs_apply ::
  "ext \<Rightarrow> world \<Rightarrow> CTransaction \<Rightarrow> int \<Rightarrow> CAsset \<Rightarrow> CAsset \<Rightarrow> bool \<Rightarrow> int \<Rightarrow> bool
     \<Rightarrow> string \<Rightarrow> string \<Rightarrow> result option" where
  "CheckAssetInputs_apply X w tx op theAsset dbAsset fJustCheck nHeight_arg dontaddtodb u1 u2 =
     (if op \<noteq> OP_ASSET_ACTIVATE X then
        (let theAsset1 = theAsset
               \<lparr>vchPubData := (if vchPubData theAsset = [] then vchPubData dbAsset
                               else vchPubData theAsset),
                vchName := vchName dbAsset,
                sCategory := (if sCategory theAsset = [] then sCategory dbAsset
                              else sCategory theAsset)\<rparr>
         in if op = OP_ASSET_TRANSFER X then
              (case GetAlias w (vchLinkAlias theAsset1) of
                 None \<Rightarrow> Some (Result True (Some E2024) w)
               | Some alias \<Rightarrow>
                   (let theAsset2 = theAsset1\<lparr>vchAlias := vchLinkAlias theAsset1\<rparr>
                    in if (nAcceptTransferFlags alias AND ACCEPT_TRANSFER_ASSETS X) = 0
                         then Some (Result True (Some E2025) w)
                       else if vchAlias dbAsset \<noteq> vchAlias theAsset2
                         then Some (Result True (Some E2026_owner) w)
                       else CheckAssetInputs_write X w tx op theAsset2 dbAsset fJustCheck
                              nHeight_arg dontaddtodb u1 u2))
            else if op = OP_ASSET_UPDATE X \<and> vchAlias dbAsset \<noteq> vchAlias theAsset1
              then Some (Result True (Some E2026_owner) w)
            else CheckAssetInputs_write X w tx op theAsset1 dbAsset fJustCheck
                   nHeight_arg dontaddtodb u1 u2)
      else if fJustCheck then
        (case GetAsset X w (vchAsset theAsset) theAsset of
           (True, _) \<Rightarrow> Some (Result True (Some E2027) w)
         | (False, theAsset1) \<Rightarrow>
             CheckAssetInputs_write X w tx op theAsset1 dbAsset fJustCheck
               nHeight_arg dontaddtodb u1 u2)
      else CheckAssetInputs_write X w tx op theAsset dbAsset fJustCheck
             nHeight_arg dontaddtodb u1 u2)"

definition CheckAssetInputs ::
  "ext \<Rightarrow> world \<Rightarrow> CTransaction \<Rightarrow> int \<Rightarrow> vch list \<Rightarrow> vch list \<Rightarrow> bool \<Rightarrow> int \<Rightarrow> bool
     \<Rightarrow> result option" where
  "CheckAssetInputs X w tx op vvchArgs vvchAliasArgs fJustCheck nHeight_arg dontaddtodb =
     (case CheckAssetInputs_pre X w tx vvchArgs vvchAliasArgs fJustCheck dontaddtodb of
        Inl r \<Rightarrow> r
      | Inr theAsset \<Rightarrow>
          (case (if fJustCheck then CheckAssetInputs_strict X op theAsset else None) of
             Some (b, e) \<Rightarrow> Some (Result b (Some e) w)
           | None \<Rightarrow>
               (let u1 = vchAlias theAsset;
                    u2 = (if op = OP_ASSET_TRANSFER X \<and> vchLinkAlias theAsset \<noteq> []
                          then vchLinkAlias theAsset else [])
                in case CheckAssetInputs_load X w tx op theAsset fJustCheck nHeight_arg
                          dontaddtodb of
                     Inl r \<Rightarrow> r
                   | Inr (dbAsset, w1) \<Rightarrow>
                       CheckAssetInputs_apply X w1 tx op theAsset dbAsset fJustCheck
                         nHeight_arg dontaddtodb u1 u2)))"

section \<open>Wire format of the record\<close>

text \<open>
  Modelled from the spec: the \<open>CDataStream\<close> operators \<open><<\<close> and \<open>>>\<close> of \<open>CAsset\<close> (its
  \<open>SerializationOp\<close>, declared in asset.h) are not among the sources. The spec gives the
  persisted record wire format as "asset id, owner alias id, name, public data, category,
  link alias (transient), height, transaction hash - encoded canonically and
  length-bounded per field", a "canonical, deterministic encoding (field order fixed by
  the data model)"; the two operation tags that head the spec's list stand in the script
  and are no fields of the record. The fields are written in this order: a byte string
  behind its length (4 bytes), the height in 8 and the hash in 32 bytes, all numbers with
  the least significant byte first. Reading fails (the exception of \<open>>>\<close>) when the bytes
  end before a field does.
\<close>

fun put_le :: "nat \<Rightarrow> nat \<Rightarrow> vch" where
  "put_le 0 n = []"
| "put_le (Suc k) n = char_of (n mod 256) # put_le k (n div 256)"

fun get_le :: "vch \<Rightarrow> nat" where
  "get_le [] = 0"
| "get_le (c # cs) = of_char c + 256 * get_le cs"

definition put_vch :: "vch \<Rightarrow> vch" where
  "put_vch v = put_le 4 (length v) @ v"

definition get_vch :: "vch \<Rightarrow> (vch \<times> vch) option" where
  "get_vch d =
     (if length d < 4 then None
      else let n = get_le (take 4 d); rest = drop 4 d in
        if n \<le> length rest then Some (take n rest, drop n rest) else None)"

definition wire_out :: "CAsset \<Rightarrow> vch" where
  "wire_out a =
     put_vch (vchAsset a) @ put_vch (vchAlias a) @ put_vch (vchName a)
     @ put_vch (vchPubData a) @ put_vch (sCategory a) @ put_vch (vchLinkAlias a)
     @ put_le 8 (unat (nHeight a)) @ put_le 32 (unat (txHash a))"

definition wire_in :: "vch \<Rightarrow> CAsset option" where
  "wire_in d0 =
     (case get_vch d0 of None \<Rightarrow> None | Some (f1, d1) \<Rightarrow>
     (case get_vch d1 of None \<Rightarrow> None | Some (f2, d2) \<Rightarrow>
     (case get_vch d2 of None \<Rightarrow> None | Some (f3, d3) \<Rightarrow>
     (case get_vch d3 of None \<Rightarrow> None | Some (f4, d4) \<Rightarrow>
     (case get_vch d4 of None \<Rightarrow> None | Some (f5, d5) \<Rightarrow>
     (case get_vch d5 of None \<Rightarrow> None | Some (f6, d6) \<Rightarrow>
        (if length d6 < 40 then None
         else Some \<lparr>vchAsset = f1, vchAlias = f2, vchName = f3, vchPubData = f4,
                    sCategory = f5, vchLinkAlias = f6,
                    nHeight = of_nat (get_le (take 8 d6)),
                    txHash = of_nat (get_le (take 32 (drop 8 d6)))\<rparr>)))))))"

text \<open>
  Modelled from the spec: a valid record is "length-bounded per field"; the bounds of the
  spec are those of the life-cycle rules, and every record within them has byte strings
  whose lengths fit the 4 length bytes.
\<close>

definition wire_valid :: "CAsset \<Rightarrow> bool" where
  "wire_valid a \<longleftrightarrow>
     length (vchAsset a) < 2 ^ 32 \<and> length (vchAlias a) < 2 ^ 32 \<and>
     length (vchName a) < 2 ^ 32 \<and> length (vchPubData a) < 2 ^ 32 \<and>
     length (sCategory a) < 2 ^ 32 \<and> length (vchLinkAlias a) < 2 ^ 32"

section \<open>Observations on the histories\<close>

text \<open>
  The keys (\<open>_id\<close>) under which the activity history of the identities and the asset
  history collection of the mirror hold entries.
\<close>

definition alias_history_keys :: "world \<Rightarrow> string set" where
  "alias_history_keys w =
     (case paliasdb w of None \<Rightarrow> {} | Some adb \<Rightarrow> fst ` set (aliastxhistory adb))"

definition asset_history_keys :: "world \<Rightarrow> string set" where
  "asset_history_keys w =
     (case assethistory_collection w of None \<Rightarrow> {} | Some docs \<Rightarrow> fst ` set docs)"

section \<open>An instance of the parameters\<close>

text \<open>
  A concrete instance of the external parameters, on which the examples below are
  evaluated. Its stream operators are the wire format above; the opcodes are those of
  the script interpreter.
\<close>

fun hex_digits :: "nat \<Rightarrow> nat \<Rightarrow> string" where
  "hex_digits 0 n = []"
| "hex_digits (Suc k) n = hex_digits k (n div 16) @ [''0123456789abcdef'' ! (n mod 16)]"

definition example_ext :: ext where
  "example_ext =
     \<lparr>Hash = (\<lambda>v. of_nat (sum_list (map of_char v))),
      GetHex = (\<lambda>h. hex_digits 64 (unat h)),
      stream_out = wire_out,
      stream_in = wire_in,
      GetSyscoinTransactionDescription = (\<lambda>op. (''Asset'', ''Asset'')),
      AliasUnprunable_IsNull = (\<lambda>u. vchGUID u = []),
      DecodeOP_N = (\<lambda>opcode. if opcode = 0 then 0 else opcode - 80),
      OP_1 = 81, OP_16 = 96, OP_DROP = 117, OP_2DROP = 109, OP_PUSHDATA4 = 78,
      OP_SYSCOIN_ASSET = 5,
      OP_ASSET_ACTIVATE = 1, OP_ASSET_UPDATE = 2, OP_ASSET_TRANSFER = 3, OP_ASSET_MINT = 4,
      SYSCOIN_TX_VERSION = 29696,
      MAX_NAME_LENGTH = 256, MAX_VALUE_LENGTH = 1024, MAX_ID_LENGTH = 20,
      ACCEPT_TRANSFER_ASSETS = 2\<rparr>"

subsection \<open>Example states and transactions\<close>

text \<open>
  The asset \<open>X\<close> of alias \<open>A\<close>, stored at height 100 by the transaction with hash 7, and
  an older version of it. Alias \<open>A\<close> does not accept transfers, alias \<open>B\<close> does; both
  leases end at time 2000 and the median time past is 1000. Indexing is not configured.
\<close>

definition stored_X :: CAsset where
  "stored_X =
     \<lparr>vchAsset = ''X'', vchAlias = ''A'', vchName = ''Widget'', vchPubData = ''pub'',
      sCategory = ''assets/tools'', vchLinkAlias = [], nHeight = 100, txHash = 7\<rparr>"

definition previous_X :: CAsset where
  "previous_X =
     \<lparr>vchAsset = ''X'', vchAlias = ''A'', vchName = ''Widget'', vchPubData = ''old'',
      sCategory = ''assets'', vchLinkAlias = [], nHeight = 90, txHash = 5\<rparr>"

definition example_aliasdb :: CAliasDB where
  "example_aliasdb =
     \<lparr>aliases = [''A'' \<mapsto> \<lparr>alias_vchAlias = ''A'', nAcceptTransferFlags = 0\<rparr>,
                 ''B'' \<mapsto> \<lparr>alias_vchAlias = ''B'', nAcceptTransferFlags = 2\<rparr>],
      unprunable = [''A'' \<mapsto> \<lparr>vchGUID = ''ga'', nExpireTime = 2000\<rparr>,
                    ''B'' \<mapsto> \<lparr>vchGUID = ''gb'', nExpireTime = 2000\<rparr>],
      aliastxhistory = []\<rparr>"

definition example_assetdb :: CAssetDB where
  "example_assetdb =
     \<lparr>asseti = [''X'' \<mapsto> stored_X], assetp = Map.empty, assetl = Map.empty, io_ok = True\<rparr>"

definition example_world :: world where
  "example_world =
     \<lparr>paliasdb = Some example_aliasdb, passetdb = Some example_assetdb,
      asset_collection = None, assethistory_collection = None, GetMedianTimePast = 1000\<rparr>"

text \<open>The same state with a settlement lock on \<open>X\<close> and a retained previous version.\<close>

definition locked_assetdb :: CAssetDB where
  "locked_assetdb =
     \<lparr>asseti = [''X'' \<mapsto> stored_X], assetp = [''X'' \<mapsto> previous_X],
      assetl = [''X'' \<mapsto> True], io_ok = True\<rparr>"

definition locked_world :: world where
  "locked_world =
     \<lparr>paliasdb = Some example_aliasdb, passetdb = Some locked_assetdb,
      asset_collection = None, assethistory_collection = None, GetMedianTimePast = 1000\<rparr>"

text \<open>The first state at a later time, when the lease of alias \<open>A\<close> has run out.\<close>

definition expired_world :: world where
  "expired_world =
     \<lparr>paliasdb = Some example_aliasdb, passetdb = Some example_assetdb,
      asset_collection = None, assethistory_collection = None, GetMedianTimePast = 2000\<rparr>"

text \<open>
  The commitment hash of a record as the wallet commands compute it (\<open>Serialize\<close>,
  \<open>Hash\<close>, \<open>GetHex\<close>), and a transaction with hash \<open>h\<close> that carries the record \<open>a\<close>.
\<close>

definition example_commitment :: "CAsset \<Rightarrow> vch" where
  "example_commitment a = GetHex example_ext (Hash example_ext (Serialize example_ext a))"

definition example_tx :: "uint256 \<Rightarrow> CAsset \<Rightarrow> CTransaction" where
  "example_tx h a =
     \<lparr>nVersion = 29696, IsCoinBase = False, GetHash = h,
      GetSyscoinData = Some (Serialize example_ext a, example_commitment a)\<rparr>"

text \<open>The records carried by the example transactions.\<close>

definition transfer_X_to_B :: CAsset where
  "transfer_X_to_B =
     \<lparr>vchAsset = ''X'', vchAlias = ''A'', vchName = [], vchPubData = [],
      sCategory = [], vchLinkAlias = ''B'', nHeight = 100, txHash = 0\<rparr>"

definition update_X :: CAsset where
  "update_X =
     \<lparr>vchAsset = ''X'', vchAlias = ''A'', vchName = [], vchPubData = [],
      sCategory = ''assets/new'', vchLinkAlias = [], nHeight = 100, txHash = 0\<rparr>"

definition activate_Y :: CAsset where
  "activate_Y =
     \<lparr>vchAsset = ''Y'', vchAlias = ''A'', vchName = ''Gadget'', vchPubData = ''data'',
      sCategory = ''assets'', vchLinkAlias = [], nHeight = 100, txHash = 0\<rparr>"

definition activate_unnamed :: CAsset where
  "activate_unnamed =
     \<lparr>vchAsset = ''Y'', vchAlias = ''A'', vchName = [], vchPubData = ''data'',
      sCategory = ''assets'', vchLinkAlias = [], nHeight = 100, txHash = 0\<rparr>"

text \<open>An activation that names the id \<open>X\<close>, which the store already holds.\<close>

definition reactivate_X :: CAsset where
  "reactivate_X =
     \<lparr>vchAsset = ''X'', vchAlias = ''A'', vchName = ''Widget'', vchPubData = ''data'',
      sCategory = ''assets'', vchLinkAlias = [], nHeight = 100, txHash = 0\<rparr>"

section \<open>Auxiliary facts\<close>

text \<open>
  For a height in the range of a C++ \<open>int\<close> that is not negative, the unsigned 64-bit
  comparisons of the source are the comparisons of the integers.
\<close>

lemma height_conv:
  fixes x :: "64 word"
  assumes "0 \<le> h" "h < 2 ^ 31"
  shows "(word_of_int h < x) = (h < uint x)"
    and "(x < word_of_int h) = (uint x < h)"
    and "(word_of_int h \<le> x) = (h \<le> uint x)"
    and "(x \<le> word_of_int h) = (uint x \<le> h)"
proof -
  have "h < 2 ^ 64" using assms by simp
  then have "uint (word_of_int h :: 64 word) = h"
    using assms by (simp add: uint_word_of_int take_bit_eq_mod)
  then show "(word_of_int h < x) = (h < uint x)" "(x < word_of_int h) = (uint x < h)"
    "(word_of_int h \<le> x) = (h \<le> uint x)" "(x \<le> word_of_int h) = (uint x \<le> h)"
    by (simp_all add: word_less_def word_le_def)
qed

lemma pre_Inr_dbs:
  assumes "CheckAssetInputs_pre X w tx vvchArgs vvchAliasArgs fJustCheck dontaddtodb = Inr theAsset"
  shows "\<exists>adb db. paliasdb w = Some adb \<and> passetdb w = Some db"
  using assms by (auto simp: CheckAssetInputs_pre_def split: if_splits)

subsection \<open>The wire format reads back what it writes\<close>

lemma length_put_le: "length (put_le k n) = k"
  by (induction k arbitrary: n) simp_all

lemma get_put_le: "get_le (put_le k n) = n mod 256 ^ k"
proof (induction k arbitrary: n)
  case 0
  then show ?case by simp
next
  case (Suc k)
  have "n mod 256 + 256 * (n div 256 mod 256 ^ k) = n mod (256 * 256 ^ k)"
    by (simp add: mod_mult2_eq)
  with Suc show ?case by simp
qed

lemma get_put_vch:
  assumes "length v < 2 ^ 32"
  shows "get_vch (put_vch v @ rest) = Some (v, rest)"
proof -
  have "length v mod 256 ^ 4 = length v"
    using assms by simp
  then show ?thesis
    by (simp add: get_vch_def put_vch_def length_put_le get_put_le del: power_numeral)
qed

lemma wire_roundtrip:
  assumes "wire_valid a"
  shows "wire_in (wire_out a) = Some a"
proof -
  have "unat (nHeight a) < 256 ^ 8"
    using unsigned_less [of "nHeight a", where ?'a = nat] by simp
  then have h: "(of_nat (unat (nHeight a) mod 256 ^ 8) :: 64 word) = nHeight a"
    by simp
  have "unat (txHash a) < 256 ^ 32"
    using unsigned_less [of "txHash a", where ?'a = nat] by simp
  then have t: "(of_nat (unat (txHash a) mod 256 ^ 32) :: 256 word) = txHash a"
    by simp
  show ?thesis
    using assms unfolding wire_in_def wire_out_def wire_valid_def
    by (simp add: get_put_vch length_put_le get_put_le h t del: power_numeral)
qed

lemma example_Unserialize:
  assumes "wire_valid a"
  shows "UnserializeFromData example_ext (Serialize example_ext a) (example_commitment a) = (True, a)"
proof -
  have "stream_in example_ext (stream_out example_ext a) = Some a"
    using wire_roundtrip [OF assms] by (simp add: example_ext_def)
  then show ?thesis
    by (simp add: UnserializeFromData_def Serialize_def example_commitment_def)
qed

subsection \<open>The example transactions pass the first checks\<close>

lemma example_pre:
  assumes "wire_valid a" "paliasdb w \<noteq> None" "passetdb w \<noteq> None"
  shows "CheckAssetInputs_pre example_ext w (example_tx h a) [example_commitment a] [vchAlias a]
           fJustCheck False = Inr a"
proof -
  have v: "SYSCOIN_TX_VERSION example_ext = 29696"
    by (simp add: example_ext_def)
  show ?thesis
    using assms(2,3)
    by (simp add: CheckAssetInputs_pre_def CheckAssetInputs_alias_def example_tx_def v
        example_Unserialize [OF assms(1)])
qed

lemma example_GetAsset_X:
  shows "GetAsset example_ext example_world ''X'' txPos = (True, stored_X)"
    and "GetAsset example_ext locked_world ''X'' txPos = (True, stored_X)"
  by (simp_all add: GetAsset_def GetAssetExpiration_def example_world_def locked_world_def
      example_assetdb_def locked_assetdb_def example_aliasdb_def stored_X_def example_ext_def)

lemma example_load_X:
  assumes "vchAsset a = ''X''"
  shows "CheckAssetInputs_load example_ext example_world tx op a fJustCheck 101 False
           = Inr (stored_X, example_world)"
proof -
  have "ReadISLock example_assetdb ''X'' = None"
    by (simp add: ReadISLock_def example_assetdb_def)
  moreover have "passetdb example_world = Some example_assetdb"
    by (simp add: example_world_def)
  moreover have "nHeight stored_X = 100"
    by (simp add: stored_X_def)
  ultimately show ?thesis
    using assms by (simp add: CheckAssetInputs_load_def example_GetAsset_X)
qed

lemma example_strict_update_X:
  "CheckAssetInputs_strict example_ext (OP_ASSET_UPDATE example_ext) update_X = None"
  by (simp add: CheckAssetInputs_strict_def update_X_def example_ext_def istarts_with_def
      to_lower_def)

lemma length_hex_digits: "length (hex_digits k n) = k"
  by (induction k arbitrary: n) simp_all

lemma example_commitment_length: "length (example_commitment a) = 64"
  by (simp add: example_commitment_def example_ext_def length_hex_digits)

lemma example_stale_hash:
  shows "paliasdb example_world \<noteq> None" "passetdb example_world \<noteq> None"
    and "nVersion (example_tx 9 update_X) = SYSCOIN_TX_VERSION example_ext"
    and "GetSyscoinData (example_tx 9 update_X)
           = Some (Serialize example_ext update_X, example_commitment update_X)"
    and "UnserializeFromData example_ext (Serialize example_ext update_X)
           (example_commitment update_X) = (True, update_X)"
    and "''stale'' \<noteq> example_commitment update_X"
proof -
  show "paliasdb example_world \<noteq> None" "passetdb example_world \<noteq> None"
    by (simp_all add: example_world_def)
  show "nVersion (example_tx 9 update_X) = SYSCOIN_TX_VERSION example_ext"
    by (simp add: example_tx_def example_ext_def)
  show "GetSyscoinData (example_tx 9 update_X)
          = Some (Serialize example_ext update_X, example_commitment update_X)"
    by (simp add: example_tx_def)
  show "UnserializeFromData example_ext (Serialize example_ext update_X)
          (example_commitment update_X) = (True, update_X)"
    by (rule example_Unserialize) (simp add: wire_valid_def update_X_def)
  show "''stale'' \<noteq> example_commitment update_X"
  proof
    assume "''stale'' = example_commitment update_X"
    then have "length ''stale'' = length (example_commitment update_X)"
      by (rule arg_cong)
    then show False
      by (simp add: example_commitment_length)
  qed
qed

lemma example_unnamed:
  shows "CheckAssetInputs_pre example_ext example_world (example_tx 9 activate_unnamed)
      [example_commitment activate_unnamed] [''A''] True False = Inr activate_unnamed"
    and "length (sCategory activate_unnamed) \<le> MAX_NAME_LENGTH example_ext"
    and "length (vchPubData activate_unnamed) \<le> MAX_VALUE_LENGTH example_ext"
    and "vchLinkAlias activate_unnamed = []"
    and "vchName activate_unnamed = []
         \<or> length (vchName activate_unnamed) > MAX_ID_LENGTH example_ext"
proof -
  have sf: "wire_valid activate_unnamed"
    by (simp add: wire_valid_def activate_unnamed_def)
  have dbs: "paliasdb example_world \<noteq> None" "passetdb example_world \<noteq> None"
    by (simp_all add: example_world_def)
  show "CheckAssetInputs_pre example_ext example_world (example_tx 9 activate_unnamed)
      [example_commitment activate_unnamed] [''A''] True False = Inr activate_unnamed"
    using example_pre [OF sf dbs, of 9 True] by (simp add: activate_unnamed_def)
  show "length (sCategory activate_unnamed) \<le> MAX_NAME_LENGTH example_ext"
    "length (vchPubData activate_unnamed) \<le> MAX_VALUE_LENGTH example_ext"
    "vchLinkAlias activate_unnamed = []"
    "vchName activate_unnamed = []
     \<or> length (vchName activate_unnamed) > MAX_ID_LENGTH example_ext"
    by (simp_all add: activate_unnamed_def example_ext_def)
qed

subsection \<open>Two accepted example operations\<close>

lemma example_update_pre_load:
  shows "CheckAssetInputs_pre example_ext example_world (example_tx 9 update_X)
      [example_commitment update_X] [''A''] True False = Inr update_X"
    and "CheckAssetInputs_load example_ext example_world (example_tx 9 update_X)
      (OP_ASSET_UPDATE example_ext) update_X True 101 False = Inr (stored_X, example_world)"
    and "distinct_ops example_ext"
proof -
  have sf: "wire_valid update_X"
    by (simp add: wire_valid_def update_X_def)
  have dbs: "paliasdb example_world \<noteq> None" "passetdb example_world \<noteq> None"
    by (simp_all add: example_world_def)
  show "CheckAssetInputs_pre example_ext example_world (example_tx 9 update_X)
      [example_commitment update_X] [''A''] True False = Inr update_X"
    using example_pre [OF sf dbs, of 9 True] by (simp add: update_X_def)
  show "CheckAssetInputs_load example_ext example_world (example_tx 9 update_X)
      (OP_ASSET_UPDATE example_ext) update_X True 101 False = Inr (stored_X, example_world)"
    by (rule example_load_X) (simp add: update_X_def)
  show "distinct_ops example_ext"
    by (simp add: distinct_ops_def example_ext_def)
qed

lemma example_update_run:
  "\<exists>W. CheckAssetInputs example_ext example_world (example_tx 9 update_X)
        (OP_ASSET_UPDATE example_ext) [example_commitment update_X] [''A''] True 101 False
      = Some (Result True None W)"
proof -
  have ops: "OP_ASSET_UPDATE example_ext \<noteq> OP_ASSET_ACTIVATE example_ext"
    "OP_ASSET_UPDATE example_ext \<noteq> OP_ASSET_TRANSFER example_ext"
    by (simp_all add: example_ext_def)
  have own: "vchAlias stored_X = vchAlias update_X"
    by (simp add: stored_X_def update_X_def)
  have desc: "GetSyscoinTransactionDescription example_ext op = (''Asset'', ''Asset'')" for op
    by (simp add: example_ext_def)
  have io: "passetdb example_world = Some example_assetdb" "io_ok example_assetdb"
    "paliasdb example_world = Some example_aliasdb" "asset_collection example_world = None"
    by (simp_all add: example_world_def example_assetdb_def)
  show ?thesis
    by (simp add: CheckAssetInputs_def example_update_pre_load example_strict_update_X
        CheckAssetInputs_apply_def ops own CheckAssetInputs_write_def desc
        WriteAliasIndexTxHistory_def WriteAsset_def WriteAssetIndex_def io Let_def)
qed

lemma example_activate_pre_load:
  shows "CheckAssetInputs_pre example_ext example_world (example_tx 9 activate_Y)
      [example_commitment activate_Y] [''A''] True False = Inr activate_Y"
    and "CheckAssetInputs_load example_ext example_world (example_tx 9 activate_Y)
      (OP_ASSET_ACTIVATE example_ext) activate_Y True 101 False
      = Inr (CAsset_SetNull, example_world)"
proof -
  have sf: "wire_valid activate_Y"
    by (simp add: wire_valid_def activate_Y_def)
  have dbs: "paliasdb example_world \<noteq> None" "passetdb example_world \<noteq> None"
    by (simp_all add: example_world_def)
  show "CheckAssetInputs_pre example_ext example_world (example_tx 9 activate_Y)
      [example_commitment activate_Y] [''A''] True False = Inr activate_Y"
    using example_pre [OF sf dbs, of 9 True] by (simp add: activate_Y_def)
  show "CheckAssetInputs_load example_ext example_world (example_tx 9 activate_Y)
      (OP_ASSET_ACTIVATE example_ext) activate_Y True 101 False
      = Inr (CAsset_SetNull, example_world)"
    by (simp add: CheckAssetInputs_load_def GetAsset_def example_world_def example_assetdb_def
        activate_Y_def)
qed

lemma example_activate_run:
  "\<exists>W. CheckAssetInputs example_ext example_world (example_tx 9 activate_Y)
        (OP_ASSET_ACTIVATE example_ext) [example_commitment activate_Y] [''A''] True 101 False
      = Some (Result True None W)"
proof -
  have strict: "CheckAssetInputs_strict example_ext (OP_ASSET_ACTIVATE example_ext) activate_Y
      = None"
    by (simp add: CheckAssetInputs_strict_def activate_Y_def example_ext_def starts_with_def)
  have get: "GetAsset example_ext example_world (vchAsset activate_Y) activate_Y
      = (False, activate_Y)"
    by (simp add: GetAsset_def example_world_def example_assetdb_def activate_Y_def)
  have desc: "GetSyscoinTransactionDescription example_ext op = (''Asset'', ''Asset'')" for op
    by (simp add: example_ext_def)
  have io: "passetdb example_world = Some example_assetdb" "io_ok example_assetdb"
    "paliasdb example_world = Some example_aliasdb" "asset_collection example_world = None"
    by (simp_all add: example_world_def example_assetdb_def)
  show ?thesis
    by (simp add: CheckAssetInputs_def example_activate_pre_load strict
        CheckAssetInputs_apply_def get CheckAssetInputs_write_def desc
        WriteAliasIndexTxHistory_def WriteAsset_def WriteAssetIndex_def io Let_def)
qed

subsection \<open>The write and what it persists\<close>

lemma WriteAsset_store:
  assumes "WriteAsset X w1 a prevAsset op fJustCheck = (True, w2)"
  shows "\<exists>db'. passetdb w2 = Some db' \<and> asseti db' (vchAsset a) = Some a"
  using assms
  by (auto simp: WriteAsset_def WriteAssetIndex_def WriteAssetIndexHistory_def Let_def
      split: option.splits if_splits)

lemma write_persists:
  assumes "CheckAssetInputs_write X w tx op theAsset dbAsset fJustCheck h False u1 u2 = Some r"
      and "ret r"
  shows "errorMessage r = None
       \<and> (\<exists>w1. WriteAsset X w1
                  (theAsset\<lparr>vchLinkAlias := [], nHeight := word_of_int h, txHash := GetHash tx\<rparr>)
                  dbAsset op fJustCheck = (True, after r))"
  using assms
  by (auto simp: CheckAssetInputs_write_def Let_def split: prod.splits bool.splits)

lemma GetAsset_null_out:
  "GetAsset X w k CAsset_SetNull = (False, d) \<Longrightarrow> d = CAsset_SetNull"
  by (auto simp: GetAsset_def split: option.splits if_splits)

lemma load_Inr_cases:
  assumes load: "CheckAssetInputs_load X w tx op theAsset fJustCheck h False = Inr (dbAsset, w1)"
      and db: "passetdb w = Some db"
      and G: "G = GetAsset X w (vchAsset theAsset) CAsset_SetNull"
  shows "if fst G then
           (if \<not> fJustCheck \<and> ReadISLock db (vchAsset theAsset) = Some True
            then txHash (snd G) \<noteq> GetHash tx \<and> \<not> word_of_int h \<le> nHeight (snd G)
                 \<and> dbAsset = (if op \<noteq> OP_ASSET_ACTIVATE X
                               then (case ReadLastAsset db (vchAsset theAsset) of
                                       None \<Rightarrow> CAsset_SetNull | Some lastAsset \<Rightarrow> lastAsset)
                               else snd G)
                 \<and> w1 = EraseAssetIndexHistory
                          (EraseAliasIndexTxHistory
                             (w\<lparr>passetdb := Some (db\<lparr>assetl :=
                                   (assetl db)(vchAsset theAsset := None)\<rparr>)\<rparr>)
                             (GetHex X (txHash (snd G))))
                          (GetHex X (txHash (snd G)))
            else dbAsset = snd G \<and> w1 = w)
         else op = OP_ASSET_ACTIVATE X \<and> dbAsset = CAsset_SetNull \<and> w1 = w"
proof (cases "GetAsset X w (vchAsset theAsset) CAsset_SetNull")
  case (Pair b d)
  show ?thesis
  proof (cases b)
    case False
    with Pair have "d = CAsset_SetNull"
      by (auto dest: GetAsset_null_out)
    with load db Pair False G show ?thesis
      by (auto simp: CheckAssetInputs_load_def split: if_splits)
  next
    case True
    with load db Pair G show ?thesis
      by (auto simp: CheckAssetInputs_load_def EraseISLock_def Write_assetp_def Let_def
          split: if_splits)
  qed
qed

lemma accepted_cases:
  assumes pre: "CheckAssetInputs_pre X w tx vvchArgs vvchAliasArgs fJustCheck False = Inr theAsset"
      and db: "passetdb w = Some db"
      and acc: "CheckAssetInputs X w tx op vvchArgs vvchAliasArgs fJustCheck h False = Some r"
        "ret r" "errorMessage r = None"
      and G: "G = GetAsset X w (vchAsset theAsset) CAsset_SetNull"
  shows "(\<not> fJustCheck \<and> ReadISLock db (vchAsset theAsset) = Some True \<and> fst G
            \<and> txHash (snd G) = GetHash tx
            \<and> after r = w\<lparr>passetdb :=
                 Some (db\<lparr>assetp := (assetp db)(vchAsset theAsset \<mapsto> snd G),
                          assetl := (assetl db)(vchAsset theAsset := None)\<rparr>)\<rparr>)
       \<or> (\<exists>dbAsset w1 u1 u2.
            CheckAssetInputs_load X w tx op theAsset fJustCheck h False = Inr (dbAsset, w1)
            \<and> CheckAssetInputs_apply X w1 tx op theAsset dbAsset fJustCheck h False u1 u2 = Some r)"
proof (cases "CheckAssetInputs_load X w tx op theAsset fJustCheck h False")
  case (Inr p)
  with acc pre show ?thesis
    by (cases p) (auto simp: CheckAssetInputs_def Let_def split: option.splits if_splits)
next
  case (Inl r')
  with acc pre have r': "r' = Some r"
    by (auto simp: CheckAssetInputs_def Let_def split: option.splits if_splits)
  obtain b d where Pair: "GetAsset X w (vchAsset theAsset) CAsset_SetNull = (b, d)"
    by (cases "GetAsset X w (vchAsset theAsset) CAsset_SetNull")
  from Inl r' acc(2,3) db Pair G show ?thesis
    by (cases r)
       (auto simp: CheckAssetInputs_load_def EraseISLock_def Write_assetp_def Let_def
          split: if_splits bool.splits)
qed


lemma WriteAliasIndexTxHistory_world:
  shows "passetdb (WriteAliasIndexTxHistory X w u1 u2 u3 t n ty g) = passetdb w"
    and "asset_history_keys (WriteAliasIndexTxHistory X w u1 u2 u3 t n ty g) = asset_history_keys w"
    and "alias_history_keys (WriteAliasIndexTxHistory X w u1 u2 u3 t n ty g)
           \<subseteq> insert (GetHex X t) (alias_history_keys w)"
  by (auto simp: WriteAliasIndexTxHistory_def alias_history_keys_def asset_history_keys_def
      split: option.splits)

lemma WriteAsset_world:
  assumes "WriteAsset X w a prevAsset op fJustCheck = (b, w2)" "passetdb w = Some db"
  shows "(\<exists>db'. passetdb w2 = Some db' \<and> assetl db' = assetl db)
       \<and> alias_history_keys w2 = alias_history_keys w
       \<and> asset_history_keys w2 \<subseteq> insert (GetHex X (txHash a)) (asset_history_keys w)"
proof (cases "io_ok db")
  case False
  with assms show ?thesis
    by (auto simp: WriteAsset_def)
next
  case True
  show ?thesis
  proof (cases "asset_collection w")
    case None
    with True assms show ?thesis
      by (auto simp: WriteAsset_def WriteAssetIndex_def Let_def alias_history_keys_def
          asset_history_keys_def)
  next
    case (Some docs)
    show ?thesis
    proof (cases "assethistory_collection w")
      case None
      with Some True assms show ?thesis
        by (auto simp: WriteAsset_def WriteAssetIndex_def WriteAssetIndexHistory_def Let_def
            alias_history_keys_def asset_history_keys_def)
    next
      case (Some hist)
      with \<open>asset_collection w = Some docs\<close> True assms show ?thesis
        by (auto simp: WriteAsset_def WriteAssetIndex_def WriteAssetIndexHistory_def Let_def
            alias_history_keys_def asset_history_keys_def)
    qed
  qed
qed

lemma write_world:
  assumes wr: "CheckAssetInputs_write X w1 tx op a dbAsset fJustCheck h False u1 u2 = Some r"
      and db: "passetdb w1 = Some db1"
  shows "(\<exists>db'. passetdb (after r) = Some db' \<and> assetl db' = assetl db1)
       \<and> alias_history_keys (after r) \<subseteq> insert (GetHex X (GetHash tx)) (alias_history_keys w1)
       \<and> asset_history_keys (after r) \<subseteq> insert (GetHex X (GetHash tx)) (asset_history_keys w1)"
proof -
  define w2 where "w2 =
     (case GetSyscoinTransactionDescription X op of
        (strResponse, strResponseEnglish) \<Rightarrow>
          if strResponse \<noteq> []
          then WriteAliasIndexTxHistory X w1 u1 u2 [] (GetHash tx) h strResponseEnglish (vchAsset a)
          else w1)"
  define a1 where "a1 = a\<lparr>vchLinkAlias := [], nHeight := word_of_int h, txHash := GetHash tx\<rparr>"
  have w2: "passetdb w2 = Some db1" "asset_history_keys w2 = asset_history_keys w1"
    "alias_history_keys w2 \<subseteq> insert (GetHex X (GetHash tx)) (alias_history_keys w1)"
    using db WriteAliasIndexTxHistory_world [of X w1 u1 u2 "[]" "GetHash tx" h _ "vchAsset a"]
    by (auto simp: w2_def split: prod.splits)
  obtain b w3 where W: "WriteAsset X w2 a1 dbAsset op fJustCheck = (b, w3)"
    by (cases "WriteAsset X w2 a1 dbAsset op fJustCheck")
  have r: "after r = w3"
    using wr W by (cases b) (auto simp: CheckAssetInputs_write_def Let_def w2_def a1_def)
  have "txHash a1 = GetHash tx"
    by (simp add: a1_def)
  with WriteAsset_world [OF W w2(1)] w2 r show ?thesis
    by auto
qed



lemma apply_cases:
  assumes "CheckAssetInputs_apply X w1 tx op theAsset dbAsset fJustCheck h False u1 u2 = Some r"
  shows "(after r = w1 \<and> errorMessage r \<noteq> None)
       \<or> (\<exists>a. CheckAssetInputs_write X w1 tx op a dbAsset fJustCheck h False u1 u2 = Some r)"
proof (cases "op = OP_ASSET_ACTIVATE X")
  case True
  with assms show ?thesis
    by (auto simp: CheckAssetInputs_apply_def split: if_splits prod.splits bool.splits)
next
  case False
  show ?thesis
  proof (cases "op = OP_ASSET_TRANSFER X")
    case True
    with False assms show ?thesis
      by (auto simp: CheckAssetInputs_apply_def Let_def split: if_splits option.splits)
  next
    case nt: False
    with False assms show ?thesis
      by (auto simp: CheckAssetInputs_apply_def Let_def split: if_splits)
  qed
qed

lemma purged_keys:
  shows "k \<notin> alias_history_keys (EraseAssetIndexHistory (EraseAliasIndexTxHistory w k) k)"
    and "k \<notin> asset_history_keys (EraseAssetIndexHistory (EraseAliasIndexTxHistory w k) k)"
    and "passetdb (EraseAssetIndexHistory (EraseAliasIndexTxHistory w k) k) = passetdb w"
  by (auto simp: alias_history_keys_def asset_history_keys_def EraseAssetIndexHistory_def
      EraseAliasIndexTxHistory_def split: option.splits)


lemma apply_world:
  assumes ap: "CheckAssetInputs_apply X w1 tx op theAsset dbAsset fJustCheck h False u1 u2 = Some r"
      and db: "passetdb w1 = Some db1"
  shows "(\<exists>db'. passetdb (after r) = Some db' \<and> assetl db' = assetl db1)
       \<and> alias_history_keys (after r) \<subseteq> insert (GetHex X (GetHash tx)) (alias_history_keys w1)
       \<and> asset_history_keys (after r) \<subseteq> insert (GetHex X (GetHash tx)) (asset_history_keys w1)"
proof -
  from apply_cases [OF ap] consider
    (rejected) "after r = w1"
  | (written) a where "CheckAssetInputs_write X w1 tx op a dbAsset fJustCheck h False u1 u2 = Some r"
    by blast
  then show ?thesis
  proof cases
    case rejected
    with db show ?thesis by auto
  next
    case written
    from write_world [OF this db] show ?thesis .
  qed
qed

lemma apply_accepted:
  assumes ap: "CheckAssetInputs_apply X w1 tx op theAsset dbAsset fJustCheck h False u1 u2 = Some r"
      and acc: "ret r" "errorMessage r = None"
      and fresh: "op = OP_ASSET_ACTIVATE X \<and> fJustCheck \<longrightarrow>
                    GetAsset X w1 (vchAsset theAsset) theAsset = (False, theAsset)"
      and persisted: "persisted =
             \<lparr>vchAsset = vchAsset theAsset,
              vchAlias = (if op \<noteq> OP_ASSET_ACTIVATE X \<and> op = OP_ASSET_TRANSFER X
                          then vchLinkAlias theAsset else vchAlias theAsset),
              vchName = (if op = OP_ASSET_ACTIVATE X then vchName theAsset else vchName dbAsset),
              vchPubData = (if op \<noteq> OP_ASSET_ACTIVATE X \<and> vchPubData theAsset = []
                            then vchPubData dbAsset else vchPubData theAsset),
              sCategory = (if op \<noteq> OP_ASSET_ACTIVATE X \<and> sCategory theAsset = []
                           then sCategory dbAsset else sCategory theAsset),
              vchLinkAlias = [], nHeight = word_of_int h, txHash = GetHash tx\<rparr>"
  shows "\<exists>w2. WriteAsset X w2 persisted dbAsset op fJustCheck = (True, after r)"
proof (cases "op = OP_ASSET_ACTIVATE X")
  case True
  with ap acc fresh
  have "CheckAssetInputs_write X w1 tx op theAsset dbAsset fJustCheck h False u1 u2 = Some r"
    by (cases fJustCheck) (auto simp: CheckAssetInputs_apply_def)
  from write_persists [OF this acc(1)] True show ?thesis
    unfolding persisted by (cases theAsset) auto
next
  case False
  let ?a1 = "theAsset\<lparr>vchPubData := (if vchPubData theAsset = [] then vchPubData dbAsset
                               else vchPubData theAsset),
                vchName := vchName dbAsset,
                sCategory := (if sCategory theAsset = [] then sCategory dbAsset
                              else sCategory theAsset)\<rparr>"
  show ?thesis
  proof (cases "op = OP_ASSET_TRANSFER X")
    case True
    with False ap acc
    have "CheckAssetInputs_write X w1 tx op (?a1\<lparr>vchAlias := vchLinkAlias ?a1\<rparr>) dbAsset
            fJustCheck h False u1 u2 = Some r"
      by (auto simp: CheckAssetInputs_apply_def Let_def split: if_splits option.splits)
    from write_persists [OF this acc(1)] True False show ?thesis
      unfolding persisted by (cases theAsset) auto
  next
    case nt: False
    with False ap acc
    have "CheckAssetInputs_write X w1 tx op ?a1 dbAsset fJustCheck h False u1 u2 = Some r"
      by (auto simp: CheckAssetInputs_apply_def Let_def split: if_splits)
    from write_persists [OF this acc(1)] nt False show ?thesis
      unfolding persisted by (cases theAsset) auto
  qed
qed


lemma WriteAsset_prev:
  assumes "WriteAsset X w1 a prevAsset op fJustCheck = (True, w2)" "\<not> CAsset_IsNull prevAsset"
  shows "\<exists>db'. passetdb w2 = Some db' \<and> assetp db' (vchAsset a) = Some prevAsset"
  using assms
  by (auto simp: WriteAsset_def WriteAssetIndex_def WriteAssetIndexHistory_def Let_def
      split: option.splits if_splits)

lemma accepted_written:
  assumes pre: "CheckAssetInputs_pre X w tx vvchArgs vvchAliasArgs fJustCheck False = Inr theAsset"
      and db: "passetdb w = Some db"
      and acc: "CheckAssetInputs X w tx op vvchArgs vvchAliasArgs fJustCheck h False = Some r"
        "ret r" "errorMessage r = None"
      and G: "G = GetAsset X w (vchAsset theAsset) CAsset_SetNull"
      and notnoop: "fJustCheck \<or> ReadISLock db (vchAsset theAsset) \<noteq> Some True \<or> \<not> fst G
                    \<or> txHash (snd G) \<noteq> GetHash tx"
      and fresh: "op = OP_ASSET_ACTIVATE X \<and> fJustCheck \<longrightarrow> asseti db (vchAsset theAsset) = None"
      and held: "held =
             (if fst G then
                (if \<not> fJustCheck \<and> ReadISLock db (vchAsset theAsset) = Some True
                    \<and> op \<noteq> OP_ASSET_ACTIVATE X
                 then (case ReadLastAsset db (vchAsset theAsset) of
                         None \<Rightarrow> CAsset_SetNull | Some lastAsset \<Rightarrow> lastAsset)
                 else snd G)
              else CAsset_SetNull)"
      and persisted: "persisted =
             \<lparr>vchAsset = vchAsset theAsset,
              vchAlias = (if op \<noteq> OP_ASSET_ACTIVATE X \<and> op = OP_ASSET_TRANSFER X
                          then vchLinkAlias theAsset else vchAlias theAsset),
              vchName = (if op = OP_ASSET_ACTIVATE X then vchName theAsset else vchName held),
              vchPubData = (if op \<noteq> OP_ASSET_ACTIVATE X \<and> vchPubData theAsset = []
                            then vchPubData held else vchPubData theAsset),
              sCategory = (if op \<noteq> OP_ASSET_ACTIVATE X \<and> sCategory theAsset = []
                           then sCategory held else sCategory theAsset),
              vchLinkAlias = [], nHeight = word_of_int h, txHash = GetHash tx\<rparr>"
  shows "(\<exists>w2. WriteAsset X w2 persisted held op fJustCheck = (True, after r))
       \<and> (\<exists>db'. passetdb (after r) = Some db' \<and> asseti db' (vchAsset theAsset) = Some persisted)"
proof -
  from accepted_cases [OF pre db acc G] notnoop
  obtain dbAsset w1 u1 u2 where
    load: "CheckAssetInputs_load X w tx op theAsset fJustCheck h False = Inr (dbAsset, w1)"
    and ap: "CheckAssetInputs_apply X w1 tx op theAsset dbAsset fJustCheck h False u1 u2 = Some r"
    by blast
  note lc = load_Inr_cases [OF load db G]
  have dh: "dbAsset = held"
    using lc unfolding held by (auto split: if_splits)
  have "fJustCheck \<longrightarrow> w1 = w"
    using lc by (auto split: if_splits)
  with fresh db have fr: "op = OP_ASSET_ACTIVATE X \<and> fJustCheck \<longrightarrow>
      GetAsset X w1 (vchAsset theAsset) theAsset = (False, theAsset)"
    by (auto simp: GetAsset_def)
  from apply_accepted [OF ap acc(2,3) fr, of persisted] obtain w2 where
    wr: "WriteAsset X w2 persisted held op fJustCheck = (True, after r)"
    unfolding persisted dh by blast
  have "vchAsset persisted = vchAsset theAsset"
    by (simp add: persisted)
  with WriteAsset_store [OF wr] wr show ?thesis
    by auto
qed

lemma hex_digits_inj:
  "hex_digits k m = hex_digits k n \<Longrightarrow> m mod 16 ^ k = n mod 16 ^ k"
proof (induction k arbitrary: m n)
  case 0
  then show ?case by simp
next
  case (Suc k)
  then have eq: "hex_digits k (m div 16) = hex_digits k (n div 16)"
    and d: "''0123456789abcdef'' ! (m mod 16) = ''0123456789abcdef'' ! (n mod 16)"
    by simp_all
  have "distinct ''0123456789abcdef''" by simp
  moreover have "m mod 16 < length ''0123456789abcdef''" "n mod 16 < length ''0123456789abcdef''"
    by simp_all
  ultimately have "m mod 16 = n mod 16"
    using d nth_eq_iff_index_eq by blast
  moreover have "m div 16 mod 16 ^ k = n div 16 mod 16 ^ k"
    using Suc.IH [OF eq] .
  ultimately show ?case
    by (simp add: mod_mult2_eq)
qed

lemma example_GetHex_inj: "inj (GetHex example_ext)"
proof (rule injI)
  fix x y :: uint256
  assume "GetHex example_ext x = GetHex example_ext y"
  then have "unat x mod 16 ^ 64 = unat y mod 16 ^ 64"
    by (intro hex_digits_inj) (simp add: example_ext_def)
  moreover have "unat x < 16 ^ 64" "unat y < 16 ^ 64"
    using unsigned_less [of x, where ?'a = nat] unsigned_less [of y, where ?'a = nat] by simp_all
  ultimately have "unat x = unat y"
    by simp
  then show "x = y"
    by (simp add: word_unat_eq_iff)
qed

lemma apply_on_null:
  assumes ap: "CheckAssetInputs_apply X w1 tx op theAsset CAsset_SetNull fJustCheck h d u1 u2 = Some r"
      and ops: "distinct_ops X"
      and owner: "(op = OP_ASSET_UPDATE X \<and> vchAlias theAsset \<noteq> [])
                  \<or> (op = OP_ASSET_TRANSFER X \<and> vchLinkAlias theAsset \<noteq> [])"
  shows "errorMessage r \<noteq> None"
proof -
  have n: "vchAlias CAsset_SetNull = []"
    by (simp add: CAsset_SetNull_def)
  from owner show ?thesis
  proof
    assume u: "op = OP_ASSET_UPDATE X \<and> vchAlias theAsset \<noteq> []"
    with ops have "op \<noteq> OP_ASSET_ACTIVATE X" "op \<noteq> OP_ASSET_TRANSFER X"
      by (auto simp: distinct_ops_def)
    with ap u n show ?thesis
      by (auto simp: CheckAssetInputs_apply_def Let_def)
  next
    assume t: "op = OP_ASSET_TRANSFER X \<and> vchLinkAlias theAsset \<noteq> []"
    with ops have "op \<noteq> OP_ASSET_ACTIVATE X"
      by (auto simp: distinct_ops_def)
    with ap t n show ?thesis
      by (auto simp: CheckAssetInputs_apply_def Let_def split: option.splits if_splits)
  qed
qed

section \<open>Script codec: scripts of another protocol\<close>

lemma args_no_drop:
  "\<forall>t \<in> set pc. fst t \<noteq> OP_DROP X \<and> fst t \<noteq> OP_2DROP X \<Longrightarrow>
     fst (DecodeAssetScript_args X pc vvch) = False"
  by (induction pc arbitrary: vvch) (auto split: if_splits)

text \<open>
  Claim C9. \<open>DecodeAssetScript\<close> is a total function: it returns on every script and has
  no exceptional outcome. It returns false for a script whose first token is not a
  small-integer push that decodes to the asset protocol, for a script whose second token
  is not a small-integer push that decodes to one of the four asset operations, and for
  a script with no drop opcode after its first two tokens.
\<close>

theorem DecodeAssetScript_not_this_protocol:
  assumes "(\<exists>opcode v pc. script = (opcode, v) # pc \<and>
              (opcode < OP_1 X \<or> OP_16 X < opcode \<or> DecodeOP_N X opcode \<noteq> OP_SYSCOIN_ASSET X))
         \<or> (\<exists>t opcode v pc. script = t # (opcode, v) # pc \<and>
              (opcode < OP_1 X \<or> OP_16 X < opcode \<or> \<not> IsAssetOp X (DecodeOP_N X opcode)))
         \<or> (\<forall>t \<in> set (drop 2 script). fst t \<noteq> OP_DROP X \<and> fst t \<noteq> OP_2DROP X)"
  shows "fst (DecodeAssetScript X script op0) = False"
proof -
  consider
    (first) opcode v pc where "script = (opcode, v) # pc"
      "opcode < OP_1 X \<or> OP_16 X < opcode \<or> DecodeOP_N X opcode \<noteq> OP_SYSCOIN_ASSET X"
  | (second) t opcode v pc where "script = t # (opcode, v) # pc"
      "opcode < OP_1 X \<or> OP_16 X < opcode \<or> \<not> IsAssetOp X (DecodeOP_N X opcode)"
  | (noterm) "\<forall>t \<in> set (drop 2 script). fst t \<noteq> OP_DROP X \<and> fst t \<noteq> OP_2DROP X"
    using assms by blast
  then show ?thesis
  proof cases
    case first
    then show ?thesis
      by (auto simp: DecodeAssetScript_def Let_def split: list.splits prod.splits bool.splits)
  next
    case second
    then show ?thesis
      by (cases t) (auto simp: DecodeAssetScript_def Let_def split: list.splits prod.splits bool.splits)
  next
    case noterm
    show ?thesis
    proof (cases script)
      case Nil
      then show ?thesis by (simp add: DecodeAssetScript_def)
    next
      case (Cons t1 pc1)
      note c1 = this
      show ?thesis
      proof (cases pc1)
        case Nil
        with c1 show ?thesis
          by (cases t1) (simp add: DecodeAssetScript_def Let_def)
      next
        case (Cons t2 pc2)
        with c1 noterm have "fst (DecodeAssetScript_args X pc2 []) = False"
          by (intro args_no_drop) simp
        with c1 Cons show ?thesis
          by (cases t1; cases t2)
             (auto simp: DecodeAssetScript_def Let_def split: prod.splits bool.splits)
      qed
    qed
  qed
qed

text \<open>
  One script for each case: a script that starts with a drop, a script whose second token
  pushes 16, and a script with the asset prefix and one argument but no drop.
\<close>

theorem DecodeAssetScript_not_this_protocol_witness:
  "fst (DecodeAssetScript example_ext [(117, [])] 0) = False
   \<and> fst (DecodeAssetScript example_ext [(85, []), (96, [])] 0) = False
   \<and> fst (DecodeAssetScript example_ext [(85, []), (81, []), (32, ''hash'')] 0) = False"
proof -
  have 1: "\<exists>opcode v pc. [(117, [])] = (opcode, v) # pc \<and>
              (opcode < OP_1 example_ext \<or> OP_16 example_ext < opcode
               \<or> DecodeOP_N example_ext opcode \<noteq> OP_SYSCOIN_ASSET example_ext)"
    by (simp add: example_ext_def)
  have 2: "\<exists>t opcode v pc. [(85, []), (96::int, [])] = t # (opcode, v) # pc \<and>
              (opcode < OP_1 example_ext \<or> OP_16 example_ext < opcode
               \<or> \<not> IsAssetOp example_ext (DecodeOP_N example_ext opcode))"
    by (simp add: example_ext_def IsAssetOp_def)
  have 3: "\<forall>t \<in> set (drop 2 [(85, []), (81, []), (32::int, ''hash'')]).
             fst t \<noteq> OP_DROP example_ext \<and> fst t \<noteq> OP_2DROP example_ext"
    by (simp add: example_ext_def)
  show ?thesis
    using DecodeAssetScript_not_this_protocol [of "[(117, [])]" example_ext 0, OF disjI1, OF 1]
      DecodeAssetScript_not_this_protocol [of "[(85, []), (96, [])]" example_ext 0,
        OF disjI2, OF disjI1, OF 2]
      DecodeAssetScript_not_this_protocol [of "[(85, []), (81, []), (32, ''hash'')]" example_ext 0,
        OF disjI2, OF disjI2, OF 3]
    by simp
qed

section \<open>Record codec: round trip\<close>

text \<open>
  Claim C6. With the wire format of the record as stream operators, every valid record
  is accepted by \<open>UnserializeFromData\<close> when it is given the serialization of the
  record and the hash of that serialization, as the wallet commands compute it, and the
  record read is the record written.
\<close>

theorem asset_roundtrip:
  assumes "stream_out X = wire_out" "stream_in X = wire_in" "wire_valid r"
  shows "UnserializeFromData X (Serialize X r) (GetHex X (Hash X (Serialize X r))) = (True, r)"
  using assms wire_roundtrip [of r] by (simp add: UnserializeFromData_def Serialize_def)

theorem asset_roundtrip_witness:
  "stream_out example_ext = wire_out \<and> stream_in example_ext = wire_in \<and> wire_valid stored_X
   \<and> UnserializeFromData example_ext (Serialize example_ext stored_X)
        (GetHex example_ext (Hash example_ext (Serialize example_ext stored_X))) = (True, stored_X)"
proof -
  have h: "stream_out example_ext = wire_out" "stream_in example_ext = wire_in"
    "wire_valid stored_X"
    by (simp_all add: example_ext_def wire_valid_def stored_X_def)
  show ?thesis
    using asset_roundtrip [OF h] h by simp
qed

section \<open>Life-cycle validator\<close>

subsection \<open>Height ordering\<close>

text \<open>
  Claim C4. When the store holds a live record for the asset id at height \<open>h1\<close>, a
  record for the same id that passes the checks on the transaction and is validated at
  a lower height \<open>h2 < h1\<close> is rejected with error 2026; the function returns true (the
  transaction stays valid) and the state is the one before the call.
\<close>

theorem lower_height_rejected:
  assumes pre: "CheckAssetInputs_pre X w tx vvchArgs vvchAliasArgs fJustCheck dontaddtodb = Inr theAsset"
      and strict: "fJustCheck \<longrightarrow> CheckAssetInputs_strict X op theAsset = None"
      and stored: "GetAsset X w (vchAsset theAsset) CAsset_SetNull = (True, dbAsset)"
      and lower: "0 \<le> h2" "h2 < 2 ^ 31" "h2 < uint (nHeight dbAsset)"
  shows "CheckAssetInputs X w tx op vvchArgs vvchAliasArgs fJustCheck h2 dontaddtodb
           \<in> {Some (Result True (Some E2026_locked) w), Some (Result True (Some E2026_height) w)}"
proof -
  obtain adb db where db: "paliasdb w = Some adb" "passetdb w = Some db"
    using pre_Inr_dbs [OF pre] by blast
  have lt: "word_of_int h2 < nHeight dbAsset" "word_of_int h2 \<le> nHeight dbAsset"
    using lower by (simp_all add: height_conv)
  have "CheckAssetInputs_load X w tx op theAsset fJustCheck h2 dontaddtodb
          \<in> {Inl (Some (Result True (Some E2026_locked) w)),
              Inl (Some (Result True (Some E2026_height) w))}"
    using stored db lt by (simp add: CheckAssetInputs_load_def)
  then show ?thesis
    using pre strict by (auto simp: CheckAssetInputs_def)
qed

text \<open>The update of \<open>X\<close>, stored at height 100, validated at height 99.\<close>

theorem lower_height_rejected_witness:
  "(0::int) \<le> 99 \<and> (99::int) < 2 ^ 31 \<and> 99 < uint (nHeight stored_X)
   \<and> CheckAssetInputs example_ext example_world (example_tx 9 update_X)
        (OP_ASSET_UPDATE example_ext) [example_commitment update_X] [''A''] True 99 False
       \<in> {Some (Result True (Some E2026_locked) example_world),
           Some (Result True (Some E2026_height) example_world)}"
proof -
  have sf: "wire_valid update_X"
    by (simp add: wire_valid_def update_X_def)
  have dbs: "paliasdb example_world \<noteq> None" "passetdb example_world \<noteq> None"
    by (simp_all add: example_world_def)
  have pre: "CheckAssetInputs_pre example_ext example_world (example_tx 9 update_X)
      [example_commitment update_X] [''A''] True False = Inr update_X"
    using example_pre [OF sf dbs, of 9 True] by (simp add: update_X_def)
  have stored: "GetAsset example_ext example_world (vchAsset update_X) CAsset_SetNull
      = (True, stored_X)"
    by (simp add: update_X_def example_GetAsset_X)
  have h: "(0::int) \<le> 99" "(99::int) < 2 ^ 31" "99 < uint (nHeight stored_X)"
    by (simp_all add: stored_X_def)
  show ?thesis
    using lower_height_rejected [OF pre _ stored h, of "OP_ASSET_UPDATE example_ext"] h
    by (simp add: example_strict_update_X)
qed

subsection \<open>Transfer\<close>

lemma transfer_owner_check:
  assumes pre: "CheckAssetInputs_pre X w tx vvchArgs vvchAliasArgs fJustCheck dontaddtodb = Inr theAsset"
      and strict: "fJustCheck \<longrightarrow> CheckAssetInputs_strict X op theAsset = None"
      and load: "CheckAssetInputs_load X w tx op theAsset fJustCheck h dontaddtodb = Inr (dbAsset, w1)"
      and op: "op = OP_ASSET_TRANSFER X" "op \<noteq> OP_ASSET_ACTIVATE X"
      and target: "GetAlias w1 (vchLinkAlias theAsset) = Some target"
        "(nAcceptTransferFlags target AND ACCEPT_TRANSFER_ASSETS X) \<noteq> 0"
      and other: "vchAlias dbAsset \<noteq> vchLinkAlias theAsset"
  shows "CheckAssetInputs X w tx op vvchArgs vvchAliasArgs fJustCheck h dontaddtodb
           = Some (Result True (Some E2026_owner) w1)"
  using assms by (auto simp: CheckAssetInputs_def CheckAssetInputs_apply_def Let_def)

text \<open>
  Claim C1, evaluated on the code. The asset \<open>X\<close> is live and owned by alias \<open>A\<close>; alias
  \<open>B\<close> exists and accepts asset transfers. The transfer of \<open>X\<close> from \<open>A\<close> to \<open>B\<close>, as
  the wallet command builds it, is rejected with "Asset owner must sign off on this
  change" under strict checking and at block connection alike, and the state is the one
  before the call: the owner is compared after the record's owner has been overwritten
  with the target alias.
\<close>

theorem transfer_to_accepting_alias_fails:
  "GetAsset example_ext example_world ''X'' CAsset_SetNull = (True, stored_X)
   \<and> vchAlias stored_X = ''A''
   \<and> GetAlias example_world ''B'' = Some \<lparr>alias_vchAlias = ''B'', nAcceptTransferFlags = 2\<rparr>
   \<and> (2 AND ACCEPT_TRANSFER_ASSETS example_ext) \<noteq> 0
   \<and> CheckAssetInputs example_ext example_world (example_tx 9 transfer_X_to_B)
        (OP_ASSET_TRANSFER example_ext) [example_commitment transfer_X_to_B] [''A''] True 101 False
      = Some (Result True (Some E2026_owner) example_world)
   \<and> CheckAssetInputs example_ext example_world (example_tx 9 transfer_X_to_B)
        (OP_ASSET_TRANSFER example_ext) [example_commitment transfer_X_to_B] [''A''] False 101 False
      = Some (Result True (Some E2026_owner) example_world)"
proof -
  have sf: "wire_valid transfer_X_to_B"
    by (simp add: wire_valid_def transfer_X_to_B_def)
  have dbs: "paliasdb example_world \<noteq> None" "passetdb example_world \<noteq> None"
    by (simp_all add: example_world_def)
  have pre: "CheckAssetInputs_pre example_ext example_world (example_tx 9 transfer_X_to_B)
      [example_commitment transfer_X_to_B] [''A''] fJustCheck False = Inr transfer_X_to_B"
    for fJustCheck
    using example_pre [OF sf dbs, of 9 fJustCheck] by (simp add: transfer_X_to_B_def)
  have strict: "CheckAssetInputs_strict example_ext (OP_ASSET_TRANSFER example_ext)
      transfer_X_to_B = None"
    by (simp add: CheckAssetInputs_strict_def transfer_X_to_B_def example_ext_def)
  have load: "CheckAssetInputs_load example_ext example_world (example_tx 9 transfer_X_to_B)
      (OP_ASSET_TRANSFER example_ext) transfer_X_to_B fJustCheck 101 False
      = Inr (stored_X, example_world)" for fJustCheck
    by (rule example_load_X) (simp add: transfer_X_to_B_def)
  have tgt: "GetAlias example_world ''B''
      = Some \<lparr>alias_vchAlias = ''B'', nAcceptTransferFlags = 2\<rparr>"
    by (simp add: GetAlias_def example_world_def example_aliasdb_def)
  have flag: "(2 AND ACCEPT_TRANSFER_ASSETS example_ext) \<noteq> 0"
    by (simp add: example_ext_def)
  have tgt2: "GetAlias example_world (vchLinkAlias transfer_X_to_B)
      = Some \<lparr>alias_vchAlias = ''B'', nAcceptTransferFlags = 2\<rparr>"
    using tgt by (simp add: transfer_X_to_B_def)
  have flag2: "(nAcceptTransferFlags \<lparr>alias_vchAlias = ''B'', nAcceptTransferFlags = 2\<rparr>
      AND ACCEPT_TRANSFER_ASSETS example_ext) \<noteq> 0"
    using flag by simp
  have other: "vchAlias stored_X \<noteq> vchLinkAlias transfer_X_to_B"
    by (simp add: transfer_X_to_B_def stored_X_def)
  have ops: "OP_ASSET_TRANSFER example_ext \<noteq> OP_ASSET_ACTIVATE example_ext"
    by (simp add: example_ext_def)
  have r: "CheckAssetInputs example_ext example_world (example_tx 9 transfer_X_to_B)
        (OP_ASSET_TRANSFER example_ext) [example_commitment transfer_X_to_B] [''A'']
        fJustCheck 101 False
      = Some (Result True (Some E2026_owner) example_world)" for fJustCheck
    by (rule transfer_owner_check [OF pre _ load refl ops tgt2 flag2 other]) (simp add: strict)
  show ?thesis
    using r tgt flag by (simp add: example_GetAsset_X stored_X_def)
qed

subsection \<open>Hash commitment under strict checking\<close>

lemma hash_mismatch_strict:
  assumes "paliasdb w \<noteq> None" "passetdb w \<noteq> None"
      and "nVersion tx = SYSCOIN_TX_VERSION X"
      and "GetSyscoinData tx = Some (vchData, vchHash)"
      and "UnserializeFromData X vchData vchHash = (True, theAsset)"
      and "arg0 \<noteq> vchHash"
  shows "CheckAssetInputs X w tx op [arg0] vvchAliasArgs True h dontaddtodb
           = Some (Result True (Some E2003) w)"
  using assms by (simp add: CheckAssetInputs_def CheckAssetInputs_pre_def)

text \<open>
  Claim C2 on the code: under strict checking, the update of \<open>X\<close> whose script carries
  a hash that differs from the hash of the payload is not rejected: \<open>CheckAssetInputs\<close>
  returns true, with error 2003 and the state unchanged.
\<close>

theorem hash_mismatch_strict_not_fatal:
  "''stale'' \<noteq> example_commitment update_X
   \<and> CheckAssetInputs example_ext example_world (example_tx 9 update_X)
        (OP_ASSET_UPDATE example_ext) [''stale''] [''A''] True 101 False
      = Some (Result True (Some E2003) example_world)"
  using hash_mismatch_strict [OF example_stale_hash, of "OP_ASSET_UPDATE example_ext" "[''A'']"
      101 False]
    example_stale_hash(6) by simp

text \<open>
  Claim C2, amended. For every transaction validated under strict checking whose payload
  deserializes and whose single script argument differs from the hash of the payload,
  \<open>CheckAssetInputs\<close> reports error 2003 and returns true: the transaction is accepted
  and the state is not changed.
\<close>

theorem hash_mismatch_strict_is_soft:
  assumes "paliasdb w \<noteq> None" "passetdb w \<noteq> None"
      and "nVersion tx = SYSCOIN_TX_VERSION X"
      and "GetSyscoinData tx = Some (vchData, vchHash)"
      and "UnserializeFromData X vchData vchHash = (True, theAsset)"
      and "arg0 \<noteq> vchHash"
  shows "CheckAssetInputs X w tx op [arg0] vvchAliasArgs True h dontaddtodb
           = Some (Result True (Some E2003) w)"
  using assms by (rule hash_mismatch_strict)

theorem hash_mismatch_strict_is_soft_witness:
  "''stale'' \<noteq> example_commitment update_X
   \<and> CheckAssetInputs example_ext example_world (example_tx 9 update_X)
        (OP_ASSET_TRANSFER example_ext) [''stale''] [] True 101 True
      = Some (Result True (Some E2003) example_world)"
  using hash_mismatch_strict_is_soft [OF example_stale_hash,
      of "OP_ASSET_TRANSFER example_ext" "[]" 101 True]
    example_stale_hash(6) by simp

subsection \<open>Activation with an empty or overlong name\<close>

lemma activate_bad_name:
  assumes pre: "CheckAssetInputs_pre X w tx vvchArgs vvchAliasArgs True dontaddtodb = Inr theAsset"
      and sizes: "length (sCategory theAsset) \<le> MAX_NAME_LENGTH X"
        "length (vchPubData theAsset) \<le> MAX_VALUE_LENGTH X"
      and nolink: "vchLinkAlias theAsset = []"
      and name: "vchName theAsset = [] \<or> length (vchName theAsset) > MAX_ID_LENGTH X"
  shows "CheckAssetInputs X w tx (OP_ASSET_ACTIVATE X) vvchArgs vvchAliasArgs True h dontaddtodb
           = Some (Result False (Some E2012) w)"
proof -
  have "CheckAssetInputs_strict X (OP_ASSET_ACTIVATE X) theAsset = Some (False, E2012)"
    using sizes nolink name by (auto simp: CheckAssetInputs_strict_def)
  then show ?thesis
    using pre by (simp add: CheckAssetInputs_def)
qed

text \<open>
  Claim C7 on the code: under strict checking, the activation of an asset with an empty
  name makes \<open>CheckAssetInputs\<close> return false: the containing transaction is rejected.
\<close>

theorem activate_empty_name_invalidates:
  "vchName activate_unnamed = []
   \<and> CheckAssetInputs example_ext example_world (example_tx 9 activate_unnamed)
        (OP_ASSET_ACTIVATE example_ext) [example_commitment activate_unnamed] [''A''] True 101 False
     = Some (Result False (Some E2012) example_world)"
  using activate_bad_name [OF example_unnamed, of 101]
  by (simp add: activate_unnamed_def)

text \<open>
  Claim C7, amended. Under strict checking, an activation whose record passes the checks
  before it (transaction, payload, arguments, sizes of category and public data, no link
  alias) and has an empty name, or a name longer than the id length bound, is a hard
  failure: \<open>CheckAssetInputs\<close> returns false with error 2012, and no asset state is
  written.
\<close>

theorem activate_bad_name_is_hard:
  assumes "CheckAssetInputs_pre X w tx vvchArgs vvchAliasArgs True dontaddtodb = Inr theAsset"
      and "length (sCategory theAsset) \<le> MAX_NAME_LENGTH X"
      and "length (vchPubData theAsset) \<le> MAX_VALUE_LENGTH X"
      and "vchLinkAlias theAsset = []"
      and "vchName theAsset = [] \<or> length (vchName theAsset) > MAX_ID_LENGTH X"
  shows "CheckAssetInputs X w tx (OP_ASSET_ACTIVATE X) vvchArgs vvchAliasArgs True h dontaddtodb
           = Some (Result False (Some E2012) w)"
  using assms by (rule activate_bad_name)

theorem activate_bad_name_is_hard_witness:
  "(vchName activate_unnamed = []
      \<or> length (vchName activate_unnamed) > MAX_ID_LENGTH example_ext)
   \<and> CheckAssetInputs example_ext example_world (example_tx 9 activate_unnamed)
        (OP_ASSET_ACTIVATE example_ext) [example_commitment activate_unnamed] [''A''] True 7 False
     = Some (Result False (Some E2012) example_world)"
  using activate_bad_name_is_hard [OF example_unnamed, of 7] example_unnamed(5)
  by simp

section \<open>Expiration policy and lazy expiry\<close>

text \<open>
  Claim C5. For a record \<open>r\<close> stored under the id \<open>k\<close>: its expiration is the
  unprunable-expiration time of the owning alias when the identity registry holds a
  non-null one for that alias, and the median time past plus one otherwise; and when the
  median time past has reached the expiration, \<open>GetAsset\<close> returns false and nulls the
  out-record, while the record is still in the store.
\<close>

theorem expiration_and_lazy_read:
  assumes "passetdb w = Some db" "asseti db k = Some r"
  shows "(\<forall>adb u. paliasdb w = Some adb \<and> unprunable adb (vchAlias r) = Some u
            \<and> \<not> AliasUnprunable_IsNull X u \<longrightarrow> GetAssetExpiration X w r = nExpireTime u)
       \<and> (\<not> (\<exists>adb u. paliasdb w = Some adb \<and> unprunable adb (vchAlias r) = Some u
            \<and> \<not> AliasUnprunable_IsNull X u)
            \<longrightarrow> GetAssetExpiration X w r = GetMedianTimePast w + 1)
       \<and> (GetMedianTimePast w \<ge> GetAssetExpiration X w r \<longrightarrow>
            GetAsset X w k txPos = (False, CAsset_SetNull) \<and> ReadAsset db k = Some r)"
  using assms
  by (auto simp: GetAssetExpiration_def GetAsset_def ReadAsset_def Let_def split: option.splits)


theorem expiration_and_lazy_read_witness:
  "passetdb expired_world = Some example_assetdb
   \<and> asseti example_assetdb ''X'' = Some stored_X
   \<and> GetAssetExpiration example_ext expired_world stored_X = 2000
   \<and> GetMedianTimePast expired_world = 2000
   \<and> GetAsset example_ext expired_world ''X'' stored_X = (False, CAsset_SetNull)
   \<and> ReadAsset example_assetdb ''X'' = Some stored_X"
proof -
  have h1: "passetdb expired_world = Some example_assetdb"
    by (simp add: expired_world_def)
  have h2: "asseti example_assetdb ''X'' = Some stored_X"
    by (simp add: example_assetdb_def)
  note t = expiration_and_lazy_read [OF h1 h2, of example_ext stored_X]
  have lease: "paliasdb expired_world = Some example_aliasdb
      \<and> unprunable example_aliasdb (vchAlias stored_X)
          = Some \<lparr>vchGUID = ''ga'', nExpireTime = 2000\<rparr>
      \<and> \<not> AliasUnprunable_IsNull example_ext \<lparr>vchGUID = ''ga'', nExpireTime = 2000\<rparr>"
    by (simp add: expired_world_def example_aliasdb_def stored_X_def example_ext_def)
  have e: "GetAssetExpiration example_ext expired_world stored_X = 2000"
    using conjunct1 [OF t, rule_format, OF lease] by simp
  have m: "GetMedianTimePast expired_world = 2000"
    by (simp add: expired_world_def)
  have "GetAsset example_ext expired_world ''X'' stored_X = (False, CAsset_SetNull)
      \<and> ReadAsset example_assetdb ''X'' = Some stored_X"
    using conjunct2 [OF conjunct2 [OF t]] e m by simp
  then show ?thesis
    using h1 h2 e m by simp
qed

section \<open>Life-cycle validator: reconciliation under a settlement lock\<close>

lemma lock_not_higher:
  assumes pre: "CheckAssetInputs_pre X w tx vvchArgs vvchAliasArgs False dontaddtodb = Inr theAsset"
      and db: "passetdb w = Some db"
      and stored: "GetAsset X w (vchAsset theAsset) CAsset_SetNull = (True, dbAsset)"
      and lock: "ReadISLock db (vchAsset theAsset) = Some True"
      and notabove: "nHeight dbAsset \<ge> word_of_int h"
  shows "CheckAssetInputs X w tx op vvchArgs vvchAliasArgs False h dontaddtodb
           = Some (Result True (Some E2026_locked) w)"
  using assms by (simp add: CheckAssetInputs_def CheckAssetInputs_load_def)

lemma reconciliation_aux:
  assumes pre: "CheckAssetInputs_pre X w tx vvchArgs vvchAliasArgs False False = Inr theAsset"
      and db: "passetdb w = Some db" "io_ok db"
      and stored: "GetAsset X w (vchAsset theAsset) CAsset_SetNull = (True, dbAsset)"
      and lock: "ReadISLock db (vchAsset theAsset) = Some True"
      and height: "0 \<le> h" "h < 2 ^ 31"
  shows "(h \<le> uint (nHeight dbAsset) \<longrightarrow>
            CheckAssetInputs X w tx op vvchArgs vvchAliasArgs False h False
              = Some (Result True (Some E2026_locked) w))
       \<and> (uint (nHeight dbAsset) < h \<and> txHash dbAsset \<noteq> GetHash tx \<longrightarrow>
            CheckAssetInputs X w tx op vvchArgs vvchAliasArgs False h False
              = CheckAssetInputs_apply X
                  (EraseAssetIndexHistory
                     (EraseAliasIndexTxHistory
                        (w\<lparr>passetdb :=
                             Some (db\<lparr>assetl := (assetl db)(vchAsset theAsset := None)\<rparr>)\<rparr>)
                        (GetHex X (txHash dbAsset)))
                     (GetHex X (txHash dbAsset)))
                  tx op theAsset
                  (if op \<noteq> OP_ASSET_ACTIVATE X
                   then (case ReadLastAsset db (vchAsset theAsset) of
                           None \<Rightarrow> CAsset_SetNull | Some lastAsset \<Rightarrow> lastAsset)
                   else dbAsset)
                  False h False (vchAlias theAsset)
                  (if op = OP_ASSET_TRANSFER X \<and> vchLinkAlias theAsset \<noteq> []
                   then vchLinkAlias theAsset else []))
       \<and> (uint (nHeight dbAsset) < h \<and> txHash dbAsset = GetHash tx \<longrightarrow>
            CheckAssetInputs X w tx op vvchArgs vvchAliasArgs False h False
              = Some (Result True None
                  (w\<lparr>passetdb :=
                       Some (db\<lparr>assetp := (assetp db)(vchAsset theAsset \<mapsto> dbAsset),
                                assetl := (assetl db)(vchAsset theAsset := None)\<rparr>)\<rparr>)))"
proof -
  have cmp: "(word_of_int h \<le> nHeight dbAsset) = (h \<le> uint (nHeight dbAsset))"
    using height by (simp add: height_conv)
  show ?thesis
    using pre db stored lock
    by (auto simp: CheckAssetInputs_def CheckAssetInputs_load_def EraseISLock_def
        Write_assetp_def Let_def cmp)
qed

lemma example_locked:
  shows "CheckAssetInputs_pre example_ext locked_world (example_tx t update_X)
           [example_commitment update_X] [''A''] False False = Inr update_X"
    and "passetdb locked_world = Some locked_assetdb"
    and "io_ok locked_assetdb"
    and "GetAsset example_ext locked_world (vchAsset update_X) CAsset_SetNull = (True, stored_X)"
    and "ReadISLock locked_assetdb (vchAsset update_X) = Some True"
proof -
  have sf: "wire_valid update_X"
    by (simp add: wire_valid_def update_X_def)
  have dbs: "paliasdb locked_world \<noteq> None" "passetdb locked_world \<noteq> None"
    by (simp_all add: locked_world_def)
  show "CheckAssetInputs_pre example_ext locked_world (example_tx t update_X)
           [example_commitment update_X] [''A''] False False = Inr update_X"
    using example_pre [OF sf dbs, of t False] by (simp add: update_X_def)
  show "passetdb locked_world = Some locked_assetdb"
    by (simp add: locked_world_def)
  show "io_ok locked_assetdb"
    by (simp add: locked_assetdb_def)
  show "GetAsset example_ext locked_world (vchAsset update_X) CAsset_SetNull = (True, stored_X)"
    by (simp add: update_X_def example_GetAsset_X)
  show "ReadISLock locked_assetdb (vchAsset update_X) = Some True"
    by (simp add: ReadISLock_def locked_assetdb_def update_X_def)
qed

lemma example_locked_facts:
  shows "GetAsset example_ext locked_world (vchAsset update_X) CAsset_SetNull = (True, stored_X)"
    and "ReadLastAsset locked_assetdb (vchAsset update_X) = Some previous_X"
    and "distinct_ops example_ext"
    and "OP_ASSET_UPDATE example_ext \<noteq> OP_ASSET_ACTIVATE example_ext"
    and "OP_ASSET_UPDATE example_ext \<noteq> OP_ASSET_TRANSFER example_ext"
proof -
  show "GetAsset example_ext locked_world (vchAsset update_X) CAsset_SetNull = (True, stored_X)"
    by (rule example_locked(4))
  show "ReadLastAsset locked_assetdb (vchAsset update_X) = Some previous_X"
    by (simp add: ReadLastAsset_def locked_assetdb_def update_X_def)
  show "distinct_ops example_ext"
    by (simp add: distinct_ops_def example_ext_def)
  show "OP_ASSET_UPDATE example_ext \<noteq> OP_ASSET_ACTIVATE example_ext"
    by (simp add: example_ext_def)
  show "OP_ASSET_UPDATE example_ext \<noteq> OP_ASSET_TRANSFER example_ext"
    by (simp add: example_ext_def)
qed

lemma example_locked_X:
  shows "vchAsset update_X = ''X''"
    and "ReadISLock locked_assetdb ''X'' = Some True"
    and "ReadLastAsset locked_assetdb ''X'' = Some previous_X"
    and "\<not> CAsset_IsNull previous_X"
  by (simp_all add: update_X_def ReadISLock_def ReadLastAsset_def locked_assetdb_def
      CAsset_IsNull_def previous_X_def)

lemma example_locked_update_run:
  "\<exists>W. CheckAssetInputs example_ext locked_world (example_tx 9 update_X)
        (OP_ASSET_UPDATE example_ext) [example_commitment update_X] [''A''] False 101 False
      = Some (Result True None W)"
proof -
  have h: "(0::int) \<le> 101" "(101::int) < 2 ^ 31"
    by simp_all
  have c: "uint (nHeight stored_X) < 101 \<and> txHash stored_X \<noteq> GetHash (example_tx 9 update_X)"
    by (simp add: stored_X_def example_tx_def)
  have ops: "OP_ASSET_UPDATE example_ext \<noteq> OP_ASSET_ACTIVATE example_ext"
    "OP_ASSET_UPDATE example_ext \<noteq> OP_ASSET_TRANSFER example_ext"
    by (simp_all add: example_ext_def)
  have prev: "ReadLastAsset locked_assetdb (vchAsset update_X) = Some previous_X"
    by (simp add: ReadLastAsset_def locked_assetdb_def update_X_def)
  have own: "vchAlias previous_X = vchAlias update_X"
    by (simp add: previous_X_def update_X_def)
  have desc: "GetSyscoinTransactionDescription example_ext op = (''Asset'', ''Asset'')" for op
    by (simp add: example_ext_def)
  have io: "io_ok locked_assetdb" "paliasdb locked_world = Some example_aliasdb"
    "asset_collection locked_world = None" "assethistory_collection locked_world = None"
    by (simp_all add: locked_world_def locked_assetdb_def)
  note aux = reconciliation_aux [OF example_locked h, where op = "OP_ASSET_UPDATE example_ext"
      and t1 = 9]
  from conjunct1 [OF conjunct2 [OF aux], rule_format, OF c]
  show ?thesis
    by (simp add: ops prev CheckAssetInputs_apply_def own CheckAssetInputs_write_def desc
        WriteAliasIndexTxHistory_def WriteAsset_def WriteAssetIndex_def
        EraseAssetIndexHistory_def EraseAliasIndexTxHistory_def io Let_def)
qed

lemma example_locked_transfer_run:
  "\<exists>W db'. CheckAssetInputs example_ext locked_world (example_tx 9 transfer_X_to_B)
        (OP_ASSET_TRANSFER example_ext) [example_commitment transfer_X_to_B] [''A''] False 101
        False
      = Some (Result True (Some E2026_owner) W)
    \<and> passetdb W = Some db' \<and> asseti db' ''X'' = Some stored_X
    \<and> assetp db' ''X'' = Some previous_X \<and> assetl db' ''X'' = None"
proof -
  have sf: "wire_valid transfer_X_to_B"
    by (simp add: wire_valid_def transfer_X_to_B_def)
  have dbs: "paliasdb locked_world \<noteq> None" "passetdb locked_world \<noteq> None"
    by (simp_all add: locked_world_def)
  have pre: "CheckAssetInputs_pre example_ext locked_world (example_tx 9 transfer_X_to_B)
      [example_commitment transfer_X_to_B] [''A''] False False = Inr transfer_X_to_B"
    using example_pre [OF sf dbs, of 9 False] by (simp add: transfer_X_to_B_def)
  have x: "vchAsset transfer_X_to_B = ''X''"
    by (simp add: transfer_X_to_B_def)
  have st: "GetAsset example_ext locked_world (vchAsset transfer_X_to_B) CAsset_SetNull
      = (True, stored_X)"
    by (simp add: x example_GetAsset_X)
  have lk: "ReadISLock locked_assetdb (vchAsset transfer_X_to_B) = Some True"
    by (simp add: x example_locked_X)
  have h: "(0::int) \<le> 101" "(101::int) < 2 ^ 31"
    by simp_all
  have c: "uint (nHeight stored_X) < 101
      \<and> txHash stored_X \<noteq> GetHash (example_tx 9 transfer_X_to_B)"
    by (simp add: stored_X_def example_tx_def)
  have ops: "OP_ASSET_TRANSFER example_ext \<noteq> OP_ASSET_ACTIVATE example_ext"
    by (simp add: example_ext_def)
  have link: "vchLinkAlias transfer_X_to_B = ''B''" "vchAlias previous_X \<noteq> ''B''"
    by (simp_all add: transfer_X_to_B_def previous_X_def)
  have io: "paliasdb locked_world = Some example_aliasdb"
    "assethistory_collection locked_world = None"
    "aliases example_aliasdb ''B'' = Some \<lparr>alias_vchAlias = ''B'', nAcceptTransferFlags = 2\<rparr>"
    "(2 AND ACCEPT_TRANSFER_ASSETS example_ext) \<noteq> 0"
    by (simp_all add: locked_world_def example_aliasdb_def example_ext_def)
  have db: "asseti locked_assetdb ''X'' = Some stored_X"
    "assetp locked_assetdb ''X'' = Some previous_X"
    by (simp_all add: locked_assetdb_def)
  note aux = reconciliation_aux [OF pre example_locked(2,3) st lk h,
      where op = "OP_ASSET_TRANSFER example_ext"]
  from conjunct1 [OF conjunct2 [OF aux], rule_format, OF c]
  show ?thesis
    by (simp add: ops example_locked_X(3) CheckAssetInputs_apply_def link GetAlias_def
        EraseAssetIndexHistory_def EraseAliasIndexTxHistory_def io db x Let_def)
qed

text \<open>
  Claim C3 on the code: \<open>X\<close> is stored at height 100 by transaction 7, a settlement lock
  is set for \<open>X\<close> and a previous version is retained.
  \<^item> An update of \<open>X\<close> by transaction 9 that arrives at block connection at the same
    height 100 is not reconciled: it is rejected with error 2026, and the lock, the stored
    record and the previous version are as before.
  \<^item> A transfer of \<open>X\<close> by transaction 9 that arrives at block connection at height 101 is
    reconciled and then fails the owner check: the lock is cleared, and the record that
    the store reads for \<open>X\<close> is still the one written by transaction 7, not the retained
    previous version.
\<close>

theorem no_reconciliation_at_equal_height_no_store_rollback:
  "nHeight stored_X = word_of_int 100
   \<and> ReadISLock locked_assetdb ''X'' = Some True
   \<and> ReadLastAsset locked_assetdb ''X'' = Some previous_X
   \<and> txHash stored_X \<noteq> GetHash (example_tx 9 update_X)
   \<and> CheckAssetInputs example_ext locked_world (example_tx 9 update_X)
        (OP_ASSET_UPDATE example_ext) [example_commitment update_X] [''A''] False 100 False
      = Some (Result True (Some E2026_locked) locked_world)
   \<and> txHash stored_X \<noteq> GetHash (example_tx 9 transfer_X_to_B)
   \<and> stored_X \<noteq> previous_X
   \<and> ret (the (CheckAssetInputs example_ext locked_world (example_tx 9 transfer_X_to_B)
        (OP_ASSET_TRANSFER example_ext) [example_commitment transfer_X_to_B] [''A''] False 101
        False))
   \<and> errorMessage (the (CheckAssetInputs example_ext locked_world
        (example_tx 9 transfer_X_to_B) (OP_ASSET_TRANSFER example_ext)
        [example_commitment transfer_X_to_B] [''A''] False 101 False)) = Some E2026_owner
   \<and> ReadISLock (the (passetdb (after (the (CheckAssetInputs example_ext locked_world
        (example_tx 9 transfer_X_to_B) (OP_ASSET_TRANSFER example_ext)
        [example_commitment transfer_X_to_B] [''A''] False 101 False))))) ''X'' = None
   \<and> ReadAsset (the (passetdb (after (the (CheckAssetInputs example_ext locked_world
        (example_tx 9 transfer_X_to_B) (OP_ASSET_TRANSFER example_ext)
        [example_commitment transfer_X_to_B] [''A''] False 101 False))))) ''X'' = Some stored_X"
proof -
  have "nHeight stored_X \<ge> word_of_int 100"
    by (simp add: stored_X_def)
  from lock_not_higher [OF example_locked(1,2,4,5) this, of 9 "OP_ASSET_UPDATE example_ext"]
  have eq: "CheckAssetInputs example_ext locked_world (example_tx 9 update_X)
        (OP_ASSET_UPDATE example_ext) [example_commitment update_X] [''A''] False 100 False
      = Some (Result True (Some E2026_locked) locked_world)" .
  obtain W db' where run: "CheckAssetInputs example_ext locked_world
        (example_tx 9 transfer_X_to_B) (OP_ASSET_TRANSFER example_ext)
        [example_commitment transfer_X_to_B] [''A''] False 101 False
      = Some (Result True (Some E2026_owner) W)"
    and W: "passetdb W = Some db'" "asseti db' ''X'' = Some stored_X" "assetl db' ''X'' = None"
    using example_locked_transfer_run by blast
  have ne: "stored_X \<noteq> previous_X"
    by (simp add: stored_X_def previous_X_def)
  show ?thesis
    using eq run W ne
    by (simp add: stored_X_def ReadISLock_def ReadLastAsset_def ReadAsset_def locked_assetdb_def
        example_tx_def)
qed

text \<open>
  Claim C3, amended. At block connection (not under strict checking, \<open>dontaddtodb\<close>
  false), with a settlement lock set for the id of a live stored record:
  \<^item> a candidate at a height equal to or below the stored height is rejected with error
    2026 and nothing changes;
  \<^item> at a height strictly greater than the stored height, when the hash of the stored
    record's transaction differs from the candidate transaction's hash: the lock is
    cleared and the history entries keyed by the superseded transaction's hash are
    purged; a candidate other than an activation that is then accepted is applied to the
    retained previous version, and the store holds the result as current and that
    version as previous record; when no previous version is retained the candidate is
    applied to the nulled record, and an update or a transfer that names an owner is
    then not accepted;
  \<^item> at a height strictly greater than the stored height, when the hashes are equal: the
    candidate is accepted as a no-op, the stored record is written as the previous
    version and the lock is cleared.
\<close>

theorem reconciliation_above_stored_height:
  assumes pre: "CheckAssetInputs_pre X w tx vvchArgs vvchAliasArgs False False = Inr theAsset"
      and db: "passetdb w = Some db" "io_ok db"
      and stored: "GetAsset X w (vchAsset theAsset) CAsset_SetNull = (True, stored)"
      and lock: "ReadISLock db (vchAsset theAsset) = Some True"
      and height: "0 \<le> h" "h < 2 ^ 31"
      and ops: "distinct_ops X"
      and hex: "inj (GetHex X)"
      and res: "CheckAssetInputs X w tx op vvchArgs vvchAliasArgs False h False = Some r"
      and snapshot: "snapshot = (case ReadLastAsset db (vchAsset theAsset) of
                                   None \<Rightarrow> CAsset_SetNull | Some lastAsset \<Rightarrow> lastAsset)"
      and candidate: "candidate =
             \<lparr>vchAsset = vchAsset theAsset,
              vchAlias = (if op = OP_ASSET_TRANSFER X then vchLinkAlias theAsset
                          else vchAlias theAsset),
              vchName = vchName snapshot,
              vchPubData = (if vchPubData theAsset = [] then vchPubData snapshot
                            else vchPubData theAsset),
              sCategory = (if sCategory theAsset = [] then sCategory snapshot
                           else sCategory theAsset),
              vchLinkAlias = [], nHeight = word_of_int h, txHash = GetHash tx\<rparr>"
  shows "(h \<le> uint (nHeight stored) \<longrightarrow> r = Result True (Some E2026_locked) w)
       \<and> (uint (nHeight stored) < h \<and> txHash stored \<noteq> GetHash tx \<longrightarrow>
            (\<exists>db'. passetdb (after r) = Some db' \<and> assetl db' (vchAsset theAsset) = None
               \<and> (op \<noteq> OP_ASSET_ACTIVATE X \<and> ret r \<and> errorMessage r = None \<longrightarrow>
                    asseti db' (vchAsset theAsset) = Some candidate
                    \<and> (\<not> CAsset_IsNull snapshot \<longrightarrow>
                          assetp db' (vchAsset theAsset) = Some snapshot)))
            \<and> GetHex X (txHash stored) \<notin> alias_history_keys (after r)
            \<and> GetHex X (txHash stored) \<notin> asset_history_keys (after r)
            \<and> (ReadLastAsset db (vchAsset theAsset) = None
                 \<and> ((op = OP_ASSET_UPDATE X \<and> vchAlias theAsset \<noteq> [])
                      \<or> (op = OP_ASSET_TRANSFER X \<and> vchLinkAlias theAsset \<noteq> []))
                 \<longrightarrow> errorMessage r \<noteq> None))
       \<and> (uint (nHeight stored) < h \<and> txHash stored = GetHash tx \<longrightarrow>
            r = Result True None
                  (w\<lparr>passetdb :=
                       Some (db\<lparr>assetp := (assetp db)(vchAsset theAsset \<mapsto> stored),
                                assetl := (assetl db)(vchAsset theAsset := None)\<rparr>)\<rparr>))"
proof (intro conjI impI)
  note aux = reconciliation_aux [OF pre db stored lock height, where op = op]
  show "r = Result True (Some E2026_locked) w" if "h \<le> uint (nHeight stored)"
    using aux res that by simp
  show "r = Result True None
              (w\<lparr>passetdb :=
                   Some (db\<lparr>assetp := (assetp db)(vchAsset theAsset \<mapsto> stored),
                            assetl := (assetl db)(vchAsset theAsset := None)\<rparr>)\<rparr>)"
    if "uint (nHeight stored) < h \<and> txHash stored = GetHash tx"
    using aux res that by simp
next
  assume c: "uint (nHeight stored) < h \<and> txHash stored \<noteq> GetHash tx"
  note aux = reconciliation_aux [OF pre db stored lock height, where op = op]
  define k where "k = GetHex X (txHash stored)"
  define db1 where "db1 = db\<lparr>assetl := (assetl db)(vchAsset theAsset := None)\<rparr>"
  define w1 where "w1 = EraseAssetIndexHistory
                          (EraseAliasIndexTxHistory (w\<lparr>passetdb := Some db1\<rparr>) k) k"
  define dbAsset where "dbAsset = (if op \<noteq> OP_ASSET_ACTIVATE X then snapshot else stored)"
  define u1 where "u1 = vchAlias theAsset"
  define u2 where "u2 = (if op = OP_ASSET_TRANSFER X \<and> vchLinkAlias theAsset \<noteq> []
                         then vchLinkAlias theAsset else [])"
  have "CheckAssetInputs X w tx op vvchArgs vvchAliasArgs False h False
          = CheckAssetInputs_apply X w1 tx op theAsset dbAsset False h False u1 u2"
    using aux c unfolding w1_def db1_def k_def dbAsset_def snapshot u1_def u2_def by blast
  with res have
    ap: "CheckAssetInputs_apply X w1 tx op theAsset dbAsset False h False u1 u2 = Some r"
    by simp
  have p1: "passetdb w1 = Some db1"
    by (simp add: w1_def purged_keys)
  have nk: "k \<notin> alias_history_keys w1" "k \<notin> asset_history_keys w1"
    by (simp_all add: w1_def purged_keys)
  have kne: "k \<noteq> GetHex X (GetHash tx)"
    using c hex by (auto simp: k_def dest: injD)
  note aw = apply_world [OF ap p1]
  from aw nk kne
  show "GetHex X (txHash stored) \<notin> alias_history_keys (after r)"
    "GetHex X (txHash stored) \<notin> asset_history_keys (after r)"
    unfolding k_def [symmetric] by auto
  from aw obtain db' where db': "passetdb (after r) = Some db'" "assetl db' = assetl db1"
    by blast
  have acc: "asseti db' (vchAsset theAsset) = Some candidate
             \<and> (\<not> CAsset_IsNull snapshot \<longrightarrow> assetp db' (vchAsset theAsset) = Some snapshot)"
    if a: "op \<noteq> OP_ASSET_ACTIVATE X \<and> ret r \<and> errorMessage r = None"
  proof -
    have ap': "CheckAssetInputs_apply X w1 tx op theAsset snapshot False h False u1 u2 = Some r"
      using ap a by (simp add: dbAsset_def)
    have "\<exists>w2. WriteAsset X w2 candidate snapshot op False = (True, after r)"
      by (rule apply_accepted [OF ap']) (use a in \<open>simp_all add: candidate\<close>)
    then obtain w2 where wr: "WriteAsset X w2 candidate snapshot op False = (True, after r)"
      by blast
    have "vchAsset candidate = vchAsset theAsset"
      by (simp add: candidate)
    with WriteAsset_store [OF wr] WriteAsset_prev [OF wr] db' show ?thesis
      by auto
  qed
  from db' acc
  show "\<exists>db'. passetdb (after r) = Some db' \<and> assetl db' (vchAsset theAsset) = None
          \<and> (op \<noteq> OP_ASSET_ACTIVATE X \<and> ret r \<and> errorMessage r = None \<longrightarrow>
               asseti db' (vchAsset theAsset) = Some candidate
               \<and> (\<not> CAsset_IsNull snapshot \<longrightarrow> assetp db' (vchAsset theAsset) = Some snapshot))"
    by (auto simp: db1_def)
  show "errorMessage r \<noteq> None"
    if n: "ReadLastAsset db (vchAsset theAsset) = None
           \<and> ((op = OP_ASSET_UPDATE X \<and> vchAlias theAsset \<noteq> [])
                \<or> (op = OP_ASSET_TRANSFER X \<and> vchLinkAlias theAsset \<noteq> []))"
  proof -
    from n ops have "op \<noteq> OP_ASSET_ACTIVATE X"
      by (auto simp: distinct_ops_def)
    with n have "dbAsset = CAsset_SetNull"
      by (simp add: dbAsset_def snapshot)
    with ap n apply_on_null [OF _ ops] show ?thesis
      by blast
  qed
qed

theorem reconciliation_above_stored_height_witness:
  "ReadISLock locked_assetdb ''X'' = Some True
   \<and> uint (nHeight stored_X) < 101
   \<and> txHash stored_X \<noteq> GetHash (example_tx 9 update_X)
   \<and> ReadLastAsset locked_assetdb ''X'' = Some previous_X
   \<and> ret (the (CheckAssetInputs example_ext locked_world (example_tx 9 update_X)
        (OP_ASSET_UPDATE example_ext) [example_commitment update_X] [''A''] False 101 False))
   \<and> assetl (the (passetdb (after (the (CheckAssetInputs example_ext locked_world
        (example_tx 9 update_X) (OP_ASSET_UPDATE example_ext) [example_commitment update_X]
        [''A''] False 101 False))))) ''X'' = None
   \<and> asseti (the (passetdb (after (the (CheckAssetInputs example_ext locked_world
        (example_tx 9 update_X) (OP_ASSET_UPDATE example_ext) [example_commitment update_X]
        [''A''] False 101 False))))) ''X''
     = Some \<lparr>vchAsset = ''X'', vchAlias = ''A'', vchName = ''Widget'', vchPubData = ''old'',
             sCategory = ''assets/new'', vchLinkAlias = [], nHeight = 101, txHash = 9\<rparr>
   \<and> assetp (the (passetdb (after (the (CheckAssetInputs example_ext locked_world
        (example_tx 9 update_X) (OP_ASSET_UPDATE example_ext) [example_commitment update_X]
        [''A''] False 101 False))))) ''X'' = Some previous_X
   \<and> GetHex example_ext (txHash stored_X)
       \<notin> alias_history_keys (after (the (CheckAssetInputs example_ext locked_world
            (example_tx 9 update_X) (OP_ASSET_UPDATE example_ext) [example_commitment update_X]
            [''A''] False 101 False)))"
proof -
  obtain W where run: "CheckAssetInputs example_ext locked_world (example_tx 9 update_X)
        (OP_ASSET_UPDATE example_ext) [example_commitment update_X] [''A''] False 101 False
      = Some (Result True None W)"
    using example_locked_update_run by blast
  have h: "(0::int) \<le> 101" "(101::int) < 2 ^ 31"
    by simp_all
  have c: "uint (nHeight stored_X) < 101 \<and> txHash stored_X \<noteq> GetHash (example_tx 9 update_X)"
    by (simp add: stored_X_def example_tx_def)
  note t = reconciliation_above_stored_height [OF example_locked h example_locked_facts(3)
      example_GetHex_inj run refl refl]
  from conjunct1 [OF conjunct2 [OF t], rule_format, OF c]
  have "\<exists>db'. passetdb W = Some db' \<and> assetl db' ''X'' = None
      \<and> asseti db' ''X''
          = Some \<lparr>vchAsset = ''X'', vchAlias = ''A'', vchName = ''Widget'', vchPubData = ''old'',
             sCategory = ''assets/new'', vchLinkAlias = [], nHeight = 101, txHash = 9\<rparr>
      \<and> assetp db' ''X'' = Some previous_X"
    and "GetHex example_ext (txHash stored_X) \<notin> alias_history_keys W"
    by (simp_all add: example_locked_X example_locked_facts(4,5) CAsset_IsNull_def
        update_X_def previous_X_def example_tx_def)
  then show ?thesis
    using run c by (auto simp: example_locked_X)
qed

section \<open>Life-cycle validator: accepted operations\<close>

lemma example_reactivation_run:
  "\<exists>W db'. CheckAssetInputs example_ext expired_world (example_tx 9 reactivate_X)
        (OP_ASSET_ACTIVATE example_ext) [example_commitment reactivate_X] [''A''] True 101 False
      = Some (Result True None W)
    \<and> passetdb W = Some db' \<and> asseti db' ''X'' = Some stored_X
    \<and> asseti db' [] = Some \<lparr>vchAsset = [], vchAlias = [], vchName = [], vchPubData = [], sCategory = [],
               vchLinkAlias = [], nHeight = 101, txHash = 9\<rparr>"
proof -
  have sf: "wire_valid reactivate_X"
    by (simp add: wire_valid_def reactivate_X_def)
  have dbs: "paliasdb expired_world \<noteq> None" "passetdb expired_world \<noteq> None"
    by (simp_all add: expired_world_def)
  have pre: "CheckAssetInputs_pre example_ext expired_world (example_tx 9 reactivate_X)
      [example_commitment reactivate_X] [''A''] True False = Inr reactivate_X"
    using example_pre [OF sf dbs, of 9 True] by (simp add: reactivate_X_def)
  have strict: "CheckAssetInputs_strict example_ext (OP_ASSET_ACTIVATE example_ext) reactivate_X
      = None"
    by (simp add: CheckAssetInputs_strict_def reactivate_X_def example_ext_def starts_with_def)
  have get: "GetAsset example_ext expired_world (vchAsset reactivate_X) txPos
      = (False, CAsset_SetNull)" for txPos
    by (simp add: GetAsset_def GetAssetExpiration_def expired_world_def example_assetdb_def
        example_aliasdb_def stored_X_def reactivate_X_def example_ext_def)
  have load: "CheckAssetInputs_load example_ext expired_world (example_tx 9 reactivate_X)
      (OP_ASSET_ACTIVATE example_ext) reactivate_X True 101 False
      = Inr (CAsset_SetNull, expired_world)"
  proof -
    have "passetdb expired_world = Some example_assetdb"
      by (simp add: expired_world_def)
    then show ?thesis
      by (simp add: CheckAssetInputs_load_def get)
  qed
  have desc: "GetSyscoinTransactionDescription example_ext op = (''Asset'', ''Asset'')" for op
    by (simp add: example_ext_def)
  have io: "passetdb expired_world = Some example_assetdb" "io_ok example_assetdb"
    "paliasdb expired_world = Some example_aliasdb" "asset_collection expired_world = None"
    by (simp_all add: expired_world_def example_assetdb_def)
  have x: "asseti example_assetdb ''X'' = Some stored_X"
    by (simp add: example_assetdb_def)
  have tx: "GetHash (example_tx 9 reactivate_X) = 9"
    by (simp add: example_tx_def)
  show ?thesis
    by (simp add: CheckAssetInputs_def pre strict load CheckAssetInputs_apply_def get
        CheckAssetInputs_write_def desc WriteAliasIndexTxHistory_def WriteAsset_def
        WriteAssetIndex_def io CAsset_IsNull_def CAsset_SetNull_def x tx Let_def)
qed

subsection \<open>Update\<close>

text \<open>
  Claim C8 on the code, in the state with a settlement lock on \<open>X\<close>: the stored record of
  \<open>X\<close> has the public data \<open>pub\<close> and was written at height 100 by transaction 7, the
  retained previous version has the public data \<open>old\<close>. At block connection at height 101:
  \<^item> the update by transaction 9 with empty public data is accepted, and the record it
    persists has the public data \<open>old\<close> of the previous version, not that of the stored
    record;
  \<^item> the same update by transaction 7 is accepted and the store holds the record of
    before, with its category and its height 100.
\<close>

theorem update_under_lock_previous_or_noop:
  "GetAsset example_ext locked_world ''X'' CAsset_SetNull = (True, stored_X)
   \<and> vchPubData stored_X = ''pub'' \<and> vchPubData update_X = []
   \<and> ret (the (CheckAssetInputs example_ext locked_world (example_tx 9 update_X)
        (OP_ASSET_UPDATE example_ext) [example_commitment update_X] [''A''] False 101 False))
   \<and> errorMessage (the (CheckAssetInputs example_ext locked_world (example_tx 9 update_X)
        (OP_ASSET_UPDATE example_ext) [example_commitment update_X] [''A''] False 101 False)) = None
   \<and> asseti (the (passetdb (after (the (CheckAssetInputs example_ext locked_world
        (example_tx 9 update_X) (OP_ASSET_UPDATE example_ext) [example_commitment update_X]
        [''A''] False 101 False))))) ''X''
     = Some \<lparr>vchAsset = ''X'', vchAlias = ''A'', vchName = ''Widget'', vchPubData = ''old'',
             sCategory = ''assets/new'', vchLinkAlias = [], nHeight = 101, txHash = 9\<rparr>
   \<and> ret (the (CheckAssetInputs example_ext locked_world (example_tx 7 update_X)
        (OP_ASSET_UPDATE example_ext) [example_commitment update_X] [''A''] False 101 False))
   \<and> errorMessage (the (CheckAssetInputs example_ext locked_world (example_tx 7 update_X)
        (OP_ASSET_UPDATE example_ext) [example_commitment update_X] [''A''] False 101 False)) = None
   \<and> asseti (the (passetdb (after (the (CheckAssetInputs example_ext locked_world
        (example_tx 7 update_X) (OP_ASSET_UPDATE example_ext) [example_commitment update_X]
        [''A''] False 101 False))))) ''X'' = Some stored_X
   \<and> sCategory stored_X \<noteq> sCategory update_X
   \<and> nHeight stored_X \<noteq> word_of_int 101"
proof -
  obtain W where run: "CheckAssetInputs example_ext locked_world (example_tx 9 update_X)
        (OP_ASSET_UPDATE example_ext) [example_commitment update_X] [''A''] False 101 False
      = Some (Result True None W)"
    using example_locked_update_run by blast
  have acc: "ret (Result True None W)" "errorMessage (Result True None W) = None"
    by simp_all
  have nn: "False \<or> ReadISLock locked_assetdb (vchAsset update_X) \<noteq> Some True
      \<or> \<not> fst (GetAsset example_ext locked_world (vchAsset update_X) CAsset_SetNull)
      \<or> txHash (snd (GetAsset example_ext locked_world (vchAsset update_X) CAsset_SetNull))
          \<noteq> GetHash (example_tx 9 update_X)"
    by (simp add: example_locked_facts stored_X_def example_tx_def)
  have fr: "OP_ASSET_UPDATE example_ext = OP_ASSET_ACTIVATE example_ext \<and> False
      \<longrightarrow> asseti locked_assetdb (vchAsset update_X) = None"
    by simp
  from accepted_written [OF example_locked(1,2) run acc refl nn fr refl refl]
  have p: "\<exists>db'. passetdb W = Some db' \<and> asseti db' ''X''
      = Some \<lparr>vchAsset = ''X'', vchAlias = ''A'', vchName = ''Widget'', vchPubData = ''old'',
             sCategory = ''assets/new'', vchLinkAlias = [], nHeight = 101, txHash = 9\<rparr>"
    by (simp add: example_locked_X example_GetAsset_X example_locked_facts(4,5)
        update_X_def previous_X_def example_tx_def)
  have h: "(0::int) \<le> 101" "(101::int) < 2 ^ 31"
    by simp_all
  have c: "uint (nHeight stored_X) < 101 \<and> txHash stored_X = GetHash (example_tx 7 update_X)"
    by (simp add: stored_X_def example_tx_def)
  note aux = reconciliation_aux [OF example_locked h, where op = "OP_ASSET_UPDATE example_ext"
      and t1 = 7]
  note noop = conjunct2 [OF conjunct2 [OF aux], rule_format, OF c]
  from p show ?thesis
    using run noop
    by (auto simp: example_GetAsset_X update_X_def stored_X_def locked_assetdb_def)
qed

text \<open>
  Claim C8, amended. Let an update pass the checks on the transaction, find a live stored
  record for its id, and be accepted (true is returned and no message is assigned), with
  \<open>dontaddtodb\<close> false.
  \<^item> At block connection with a settlement lock set for the id and the stored record
    written by the validating transaction itself, the update is a no-op: the current
    records of the store are those of before.
  \<^item> Otherwise the record handed to \<open>WriteAsset\<close>, which the store holds for the id
    afterwards, is \<open>persisted\<close>: the owner is the supplied one, the name is that of the
    version \<open>held\<close>, the public data and the category are the supplied ones, or those of
    \<open>held\<close> where the supplied ones are empty, the link alias is empty, and the height and
    the transaction hash are those of the validating transaction. The version \<open>held\<close> is
    the stored record; at block connection under a settlement lock it is the retained
    previous version (the nulled record when none is retained).
\<close>

theorem update_carries_forward:
  assumes pre: "CheckAssetInputs_pre X w tx vvchArgs vvchAliasArgs fJustCheck False = Inr theAsset"
      and ops: "distinct_ops X"
      and db: "passetdb w = Some db"
      and stored: "GetAsset X w (vchAsset theAsset) CAsset_SetNull = (True, stored)"
      and acc: "CheckAssetInputs X w tx (OP_ASSET_UPDATE X) vvchArgs vvchAliasArgs fJustCheck h False
                  = Some r" "ret r" "errorMessage r = None"
      and held: "held =
             (if \<not> fJustCheck \<and> ReadISLock db (vchAsset theAsset) = Some True
              then (case ReadLastAsset db (vchAsset theAsset) of
                      None \<Rightarrow> CAsset_SetNull | Some lastAsset \<Rightarrow> lastAsset)
              else stored)"
      and persisted: "persisted =
             \<lparr>vchAsset = vchAsset theAsset, vchAlias = vchAlias theAsset,
              vchName = vchName held,
              vchPubData = (if vchPubData theAsset = [] then vchPubData held
                            else vchPubData theAsset),
              sCategory = (if sCategory theAsset = [] then sCategory held
                           else sCategory theAsset),
              vchLinkAlias = [], nHeight = word_of_int h, txHash = GetHash tx\<rparr>"
  shows "(\<not> fJustCheck \<and> ReadISLock db (vchAsset theAsset) = Some True
            \<and> txHash stored = GetHash tx \<longrightarrow>
            (\<exists>db'. passetdb (after r) = Some db' \<and> asseti db' = asseti db))
       \<and> (fJustCheck \<or> ReadISLock db (vchAsset theAsset) \<noteq> Some True
            \<or> txHash stored \<noteq> GetHash tx \<longrightarrow>
            (\<exists>w2. WriteAsset X w2 persisted held (OP_ASSET_UPDATE X) fJustCheck = (True, after r))
            \<and> (\<exists>db'. passetdb (after r) = Some db'
                  \<and> asseti db' (vchAsset theAsset) = Some persisted))"
proof (intro conjI impI)
  have d: "OP_ASSET_UPDATE X \<noteq> OP_ASSET_ACTIVATE X" "OP_ASSET_UPDATE X \<noteq> OP_ASSET_TRANSFER X"
    using ops by (auto simp: distinct_ops_def)
  note cases = accepted_cases [OF pre db acc refl]
  {
    assume noop: "\<not> fJustCheck \<and> ReadISLock db (vchAsset theAsset) = Some True
                  \<and> txHash stored = GetHash tx"
    have "\<not> (\<exists>dbAsset w1. CheckAssetInputs_load X w tx (OP_ASSET_UPDATE X) theAsset fJustCheck h
                False = Inr (dbAsset, w1))"
    proof
      assume "\<exists>dbAsset w1. CheckAssetInputs_load X w tx (OP_ASSET_UPDATE X) theAsset fJustCheck h
                False = Inr (dbAsset, w1)"
      then obtain dbAsset w1 where "CheckAssetInputs_load X w tx (OP_ASSET_UPDATE X) theAsset
          fJustCheck h False = Inr (dbAsset, w1)"
        by blast
      from load_Inr_cases [OF this db refl] noop stored show False
        by simp
    qed
    with cases have "after r = w\<lparr>passetdb :=
                 Some (db\<lparr>assetp := (assetp db)(vchAsset theAsset \<mapsto>
                                      snd (GetAsset X w (vchAsset theAsset) CAsset_SetNull)),
                          assetl := (assetl db)(vchAsset theAsset := None)\<rparr>)\<rparr>"
      by blast
    then show "\<exists>db'. passetdb (after r) = Some db' \<and> asseti db' = asseti db"
      by simp
  }
  {
    assume w: "fJustCheck \<or> ReadISLock db (vchAsset theAsset) \<noteq> Some True
               \<or> txHash stored \<noteq> GetHash tx"
    have r: "(\<exists>w2. WriteAsset X w2 persisted held (OP_ASSET_UPDATE X) fJustCheck = (True, after r))
        \<and> (\<exists>db'. passetdb (after r) = Some db' \<and> asseti db' (vchAsset theAsset) = Some persisted)"
      by (rule accepted_written [OF pre db acc refl])
         (use w stored d in \<open>auto simp: held persisted\<close>)
    from r show "\<exists>w2. WriteAsset X w2 persisted held (OP_ASSET_UPDATE X) fJustCheck
                        = (True, after r)"
      by blast
    from r show "\<exists>db'. passetdb (after r) = Some db'
                   \<and> asseti db' (vchAsset theAsset) = Some persisted"
      by blast
  }
qed

theorem update_carries_forward_witness:
  "ret (the (CheckAssetInputs example_ext example_world (example_tx 9 update_X)
        (OP_ASSET_UPDATE example_ext) [example_commitment update_X] [''A''] True 101 False))
   \<and> errorMessage (the (CheckAssetInputs example_ext example_world (example_tx 9 update_X)
        (OP_ASSET_UPDATE example_ext) [example_commitment update_X] [''A''] True 101 False)) = None
   \<and> GetAsset example_ext example_world ''X'' CAsset_SetNull = (True, stored_X)
   \<and> asseti (the (passetdb (after (the (CheckAssetInputs example_ext example_world
        (example_tx 9 update_X) (OP_ASSET_UPDATE example_ext) [example_commitment update_X]
        [''A''] True 101 False))))) ''X''
     = Some \<lparr>vchAsset = ''X'', vchAlias = ''A'', vchName = ''Widget'', vchPubData = ''pub'',
             sCategory = ''assets/new'', vchLinkAlias = [], nHeight = 101, txHash = 9\<rparr>"
proof -
  obtain W where run: "CheckAssetInputs example_ext example_world (example_tx 9 update_X)
        (OP_ASSET_UPDATE example_ext) [example_commitment update_X] [''A''] True 101 False
      = Some (Result True None W)"
    using example_update_run by blast
  have acc: "ret (Result True None W)" "errorMessage (Result True None W) = None"
    by simp_all
  have db: "passetdb example_world = Some example_assetdb"
    by (simp add: example_world_def)
  have st: "GetAsset example_ext example_world (vchAsset update_X) CAsset_SetNull
      = (True, stored_X)"
    by (simp add: update_X_def example_GetAsset_X)
  note t = update_carries_forward [OF example_update_pre_load(1,3) db st run acc refl refl]
  from conjunct2 [OF t, rule_format, OF disjI1, OF TrueI]
  have "\<exists>db'. passetdb W = Some db' \<and> asseti db' ''X''
      = Some \<lparr>vchAsset = ''X'', vchAlias = ''A'', vchName = ''Widget'', vchPubData = ''pub'',
             sCategory = ''assets/new'', vchLinkAlias = [], nHeight = 101, txHash = 9\<rparr>"
    by (simp add: update_X_def stored_X_def example_tx_def)
  then show ?thesis
    using run by (auto simp: example_GetAsset_X)
qed

subsection \<open>The stamped record\<close>

text \<open>
  Claim C10 on the code.
  \<^item> In the state with a settlement lock on \<open>X\<close>, whose stored record was written at height
    100 by transaction 7: the update of \<open>X\<close> by transaction 7 at block connection at
    height 101 is accepted, and the store holds the record of before, with height 100.
  \<^item> In the state where the lease of the owner of \<open>X\<close> has run out: the activation of \<open>X\<close>
    by transaction 9 at height 101 under strict checking is accepted; the store still
    holds the record of before for \<open>X\<close>, and the record written is the nulled record with
    the height and the hash, under the empty id.
\<close>

theorem noop_and_reactivation_persist_no_stamped_record:
  "ret (the (CheckAssetInputs example_ext locked_world (example_tx 7 update_X)
        (OP_ASSET_UPDATE example_ext) [example_commitment update_X] [''A''] False 101 False))
   \<and> errorMessage (the (CheckAssetInputs example_ext locked_world (example_tx 7 update_X)
        (OP_ASSET_UPDATE example_ext) [example_commitment update_X] [''A''] False 101 False)) = None
   \<and> asseti (the (passetdb (after (the (CheckAssetInputs example_ext locked_world
        (example_tx 7 update_X) (OP_ASSET_UPDATE example_ext) [example_commitment update_X]
        [''A''] False 101 False))))) ''X'' = Some stored_X
   \<and> nHeight stored_X \<noteq> word_of_int 101
   \<and> ret (the (CheckAssetInputs example_ext expired_world (example_tx 9 reactivate_X)
        (OP_ASSET_ACTIVATE example_ext) [example_commitment reactivate_X] [''A''] True 101 False))
   \<and> errorMessage (the (CheckAssetInputs example_ext expired_world (example_tx 9 reactivate_X)
        (OP_ASSET_ACTIVATE example_ext) [example_commitment reactivate_X] [''A''] True 101
        False)) = None
   \<and> asseti (the (passetdb (after (the (CheckAssetInputs example_ext expired_world
        (example_tx 9 reactivate_X) (OP_ASSET_ACTIVATE example_ext)
        [example_commitment reactivate_X] [''A''] True 101 False))))) ''X'' = Some stored_X
   \<and> asseti (the (passetdb (after (the (CheckAssetInputs example_ext expired_world
        (example_tx 9 reactivate_X) (OP_ASSET_ACTIVATE example_ext)
        [example_commitment reactivate_X] [''A''] True 101 False))))) []
       = Some \<lparr>vchAsset = [], vchAlias = [], vchName = [], vchPubData = [], sCategory = [],
               vchLinkAlias = [], nHeight = 101, txHash = 9\<rparr>"
proof -
  have h: "(0::int) \<le> 101" "(101::int) < 2 ^ 31"
    by simp_all
  have c: "uint (nHeight stored_X) < 101 \<and> txHash stored_X = GetHash (example_tx 7 update_X)"
    by (simp add: stored_X_def example_tx_def)
  note aux = reconciliation_aux [OF example_locked h, where op = "OP_ASSET_UPDATE example_ext"
      and t1 = 7]
  note noop = conjunct2 [OF conjunct2 [OF aux], rule_format, OF c]
  obtain W db' where run: "CheckAssetInputs example_ext expired_world
        (example_tx 9 reactivate_X) (OP_ASSET_ACTIVATE example_ext)
        [example_commitment reactivate_X] [''A''] True 101 False
      = Some (Result True None W)"
    and W: "passetdb W = Some db'" "asseti db' ''X'' = Some stored_X"
      "asseti db' [] = Some \<lparr>vchAsset = [], vchAlias = [], vchName = [], vchPubData = [], sCategory = [],
               vchLinkAlias = [], nHeight = 101, txHash = 9\<rparr>"
    using example_reactivation_run by blast
  show ?thesis
    using noop run W by (simp add: locked_assetdb_def stored_X_def)
qed

text \<open>
  Claim C10, amended. Let an operation (activation, update or transfer) pass the checks on
  the transaction and be accepted (true is returned and no message is assigned), with
  \<open>dontaddtodb\<close> false; let it not be the no-op under a settlement lock (at block
  connection, lock set, live stored record written by the validating transaction itself),
  and for an activation under strict checking let the store hold no record for the id.
  Then the record handed to \<open>WriteAsset\<close>, which the store holds for the id afterwards, is
  \<open>persisted\<close>: the record of the operation (for an update or a transfer with the fields
  carried forward from the version \<open>held\<close>, for a transfer with the target as owner) with
  the link alias empty and the height and the transaction hash of the validating
  transaction.
\<close>

theorem accepted_record_is_stamped:
  assumes pre: "CheckAssetInputs_pre X w tx vvchArgs vvchAliasArgs fJustCheck False = Inr theAsset"
      and db: "passetdb w = Some db"
      and acc: "CheckAssetInputs X w tx op vvchArgs vvchAliasArgs fJustCheck h False = Some r"
        "ret r" "errorMessage r = None"
      and G: "G = GetAsset X w (vchAsset theAsset) CAsset_SetNull"
      and notnoop: "fJustCheck \<or> ReadISLock db (vchAsset theAsset) \<noteq> Some True \<or> \<not> fst G
                    \<or> txHash (snd G) \<noteq> GetHash tx"
      and fresh: "op = OP_ASSET_ACTIVATE X \<and> fJustCheck \<longrightarrow> asseti db (vchAsset theAsset) = None"
      and held: "held =
             (if fst G then
                (if \<not> fJustCheck \<and> ReadISLock db (vchAsset theAsset) = Some True
                    \<and> op \<noteq> OP_ASSET_ACTIVATE X
                 then (case ReadLastAsset db (vchAsset theAsset) of
                         None \<Rightarrow> CAsset_SetNull | Some lastAsset \<Rightarrow> lastAsset)
                 else snd G)
              else CAsset_SetNull)"
      and persisted: "persisted =
             \<lparr>vchAsset = vchAsset theAsset,
              vchAlias = (if op \<noteq> OP_ASSET_ACTIVATE X \<and> op = OP_ASSET_TRANSFER X
                          then vchLinkAlias theAsset else vchAlias theAsset),
              vchName = (if op = OP_ASSET_ACTIVATE X then vchName theAsset else vchName held),
              vchPubData = (if op \<noteq> OP_ASSET_ACTIVATE X \<and> vchPubData theAsset = []
                            then vchPubData held else vchPubData theAsset),
              sCategory = (if op \<noteq> OP_ASSET_ACTIVATE X \<and> sCategory theAsset = []
                           then sCategory held else sCategory theAsset),
              vchLinkAlias = [], nHeight = word_of_int h, txHash = GetHash tx\<rparr>"
  shows "(\<exists>w2. WriteAsset X w2 persisted held op fJustCheck = (True, after r))
       \<and> (\<exists>db'. passetdb (after r) = Some db' \<and> asseti db' (vchAsset theAsset) = Some persisted)"
  using assms by (rule accepted_written)

theorem accepted_record_is_stamped_witness:
  "ret (the (CheckAssetInputs example_ext example_world (example_tx 9 activate_Y)
        (OP_ASSET_ACTIVATE example_ext) [example_commitment activate_Y] [''A''] True 101 False))
   \<and> errorMessage (the (CheckAssetInputs example_ext example_world (example_tx 9 activate_Y)
        (OP_ASSET_ACTIVATE example_ext) [example_commitment activate_Y] [''A''] True 101 False))
       = None
   \<and> asseti example_assetdb ''Y'' = None
   \<and> asseti (the (passetdb (after (the (CheckAssetInputs example_ext example_world
        (example_tx 9 activate_Y) (OP_ASSET_ACTIVATE example_ext)
        [example_commitment activate_Y] [''A''] True 101 False))))) ''Y''
     = Some \<lparr>vchAsset = ''Y'', vchAlias = ''A'', vchName = ''Gadget'', vchPubData = ''data'',
             sCategory = ''assets'', vchLinkAlias = [], nHeight = 101, txHash = 9\<rparr>"
proof -
  obtain W where run: "CheckAssetInputs example_ext example_world (example_tx 9 activate_Y)
        (OP_ASSET_ACTIVATE example_ext) [example_commitment activate_Y] [''A''] True 101 False
      = Some (Result True None W)"
    using example_activate_run by blast
  have acc: "ret (Result True None W)" "errorMessage (Result True None W) = None"
    by simp_all
  have db: "passetdb example_world = Some example_assetdb"
    by (simp add: example_world_def)
  have nn: "True \<or> ReadISLock example_assetdb (vchAsset activate_Y) \<noteq> Some True
      \<or> \<not> fst (GetAsset example_ext example_world (vchAsset activate_Y) CAsset_SetNull)
      \<or> txHash (snd (GetAsset example_ext example_world (vchAsset activate_Y) CAsset_SetNull))
          \<noteq> GetHash (example_tx 9 activate_Y)"
    by simp
  have fr: "OP_ASSET_ACTIVATE example_ext = OP_ASSET_ACTIVATE example_ext \<and> True
      \<longrightarrow> asseti example_assetdb (vchAsset activate_Y) = None"
    by (simp add: example_assetdb_def activate_Y_def)
  from accepted_record_is_stamped [OF example_activate_pre_load(1) db run acc refl nn fr refl refl]
  have "\<exists>db'. passetdb W = Some db' \<and> asseti db' ''Y''
      = Some \<lparr>vchAsset = ''Y'', vchAlias = ''A'', vchName = ''Gadget'', vchPubData = ''data'',
             sCategory = ''assets'', vchLinkAlias = [], nHeight = 101, txHash = 9\<rparr>"
    by (simp add: activate_Y_def example_tx_def)
  then show ?thesis
    using run by (auto simp: example_assetdb_def)
qed

end
